theory Spec2Isabelle
  imports Complex_Main
begin

section \<open>Data model of the matchmaking server (server/src/index.js)\<close>

text \<open>
  The environment constants the matchmaking code reads. \<open>NEXT_COOLDOWN_SECONDS\<close> is
  \<open>Number(NEXT_COOLDOWN_SECONDS)\<close> (default 5), \<open>MATCH_SAME_COUNTRY_BIAS\<close> is
  \<open>Number(MATCH_SAME_COUNTRY_BIAS)\<close> (default 0.7) and \<open>RECAPTCHA_SECRET\<close> is
  \<open>None\<close> when the variable is not set.
\<close>

record config =
  NEXT_COOLDOWN_SECONDS :: int
  MATCH_SAME_COUNTRY_BIAS :: real
  RECAPTCHA_SECRET :: "string option"

text \<open>
  A waiting entry, the object the find handler serialises into \<open>waiting:list\<close>:
  \<open>{id, ts, tags, lang, country}\<close>. \<open>country\<close> is \<open>null\<close> (\<open>None\<close>) or a code.
  The list holds the JSON text of such objects; an entry written by this handler is
  equal to its own \<open>JSON.stringify(JSON.parse(...))\<close>, so the model keeps the objects
  and compares them by value.
\<close>

record entry =
  entry_id :: string
  entry_ts :: int
  entry_tags :: "string list"
  entry_lang :: string
  entry_country :: "string option"

text \<open>
  What \<open>createLiveKitToken\<close> signs: the identity, the one-hour lifetime and the grant.
  The JWT itself is opaque; the model keeps its contents.
\<close>

record token =
  tok_identity :: string
  tok_ttl :: string
  tok_roomJoin :: bool
  tok_room :: string
  tok_canPublish :: bool
  tok_canSubscribe :: bool

text \<open>The mailbox payload \<open>{room, token, partner: {id}}\<close> stored under \<open>match:<id>\<close>.\<close>

record assignment =
  asg_room :: string
  asg_token :: token
  asg_partner :: string

text \<open>The payload appended to the \<open>reports\<close> stream by the report handler.\<close>

record report_event =
  rep_reason :: "string option"
  rep_peerId :: "string option"
  rep_room :: "string option"
  rep_reporter :: string
  rep_ts :: int

text \<open>
  The object the report handler validates:
  \<open>{...msg, peerId: msg.peerId || '', room: ws.currentRoom || ''}\<close>. \<open>other_keys\<close> are
  the remaining keys of the message (its \<open>type\<close> among them).
\<close>

record report_object =
  ro_reason :: "string option"
  ro_peerId :: string
  ro_room :: string
  ro_other_keys :: "string list"

text \<open>
  Messages of the control protocol, client to server and server to client.
  \<open>Find tags lang\<close>: \<open>tags\<close> is \<open>None\<close> when \<open>msg.tags\<close> is not an array, and its
  elements are strings; \<open>lang\<close> is \<open>msg.lang || ''\<close>. \<open>Report reason peerId keys\<close>:
  \<open>msg.reason\<close> and \<open>msg.peerId\<close>, \<open>None\<close> when absent, and the other keys of the
  message. \<open>Other\<close> is a message of any other type.
\<close>

datatype message =
    Find "string list option" string
  | Poll
  | Next
  | Leave
  | Report "string option" "string option" "string list"
  | Other

datatype out_msg =
    MsgError string
  | MsgCooldown int
  | MsgMatched string token string
  | MsgQueued
  | MsgLeft
  | MsgOk

datatype js_error = TypeError

text \<open>
  One live connection as a handler sees it: \<open>ws.id\<close>, whether \<open>ws.readyState\<close> is
  \<open>OPEN\<close>, and the country \<open>geoip.lookup(ip)?.country\<close> of its request.
\<close>

record conn =
  ws_id :: string
  ws_open :: bool
  geo_country :: "string option"

text \<open>
  The state the handlers share. \<open>waiting\<close> is the Redis list \<open>waiting:list\<close>, head
  first; \<open>mailbox\<close> the keys \<open>match:<id>\<close>, each with the time in milliseconds at
  which it expires; \<open>reports\<close> the stream; \<open>nextCooldown\<close> the in-memory map; and
  \<open>currentRoom\<close> the property \<open>ws.currentRoom\<close> of each connection, by \<open>ws.id\<close>.
\<close>

record world =
  waiting :: "entry list"
  mailbox :: "string \<rightharpoonup> (assignment \<times> int)"
  reports :: "report_event list"
  nextCooldown :: "string \<rightharpoonup> int"
  currentRoom :: "string \<rightharpoonup> string"

text \<open>
  What a handler run takes from outside: the verifier's answer to the proof, the clock
  \<open>Date.now()\<close> in milliseconds (one reading for the run, and the clock of the Redis
  server reads the same), the fresh \<open>uid.sync(8)\<close> of the room name and the draw
  \<open>Math.random()\<close>.
\<close>

record ext =
  captcha_verdict :: bool
  now :: int
  room_uid :: string
  rnd :: real

type_synonym outcome = "world \<times> out_msg list \<times> js_error option"

section \<open>The Redis commands the handlers use\<close>

text \<open>\<open>LLEN\<close>.\<close>

definition llen :: "'a list \<Rightarrow> int" where
  "llen xs = int (length xs)"

text \<open>
  \<open>LRANGE key start stop\<close>: both ends inclusive, a negative index counts from the
  tail, a start before the head is the head, a stop after the tail is the tail.
\<close>

definition lrange :: "'a list \<Rightarrow> int \<Rightarrow> int \<Rightarrow> 'a list" where
  "lrange xs start stop =
     (let n = int (length xs);
          s0 = (if start < 0 then n + start else start);
          e0 = (if stop < 0 then n + stop else stop);
          s = (if s0 < 0 then 0 else s0);
          e = (if e0 \<ge> n then n - 1 else e0)
      in if s > e \<or> s \<ge> n then [] else take (nat (e - s + 1)) (drop (nat s) xs))"

text \<open>
  \<open>LREM key 1 value\<close>: removes the first element equal to the value, from the head,
  and answers how many it removed.
\<close>

definition lrem :: "'a list \<Rightarrow> 'a \<Rightarrow> nat \<times> 'a list" where
  "lrem xs v = (if v \<in> set xs then 1 else 0, remove1 v xs)"

text \<open>\<open>RPUSH\<close>.\<close>

definition rpush :: "'a list \<Rightarrow> 'a \<Rightarrow> 'a list" where
  "rpush xs v = xs @ [v]"

text \<open>
  \<open>SETEX key seconds value\<close> at time \<open>t\<close> (milliseconds): the key expires at
  \<open>t + seconds * 1000\<close>.
\<close>

definition setex :: "('k \<rightharpoonup> ('v \<times> int)) \<Rightarrow> 'k \<Rightarrow> int \<Rightarrow> 'v \<Rightarrow> int \<Rightarrow> ('k \<rightharpoonup> ('v \<times> int))" where
  "setex m k seconds v t = m(k \<mapsto> (v, t + seconds * 1000))"

text \<open>
  \<open>GETDEL key\<close> at time \<open>t\<close>: a key whose expiry time has passed is gone; otherwise
  the value is returned and the key deleted.
\<close>

definition getdel :: "('k \<rightharpoonup> ('v \<times> int)) \<Rightarrow> 'k \<Rightarrow> int \<Rightarrow> 'v option \<times> ('k \<rightharpoonup> ('v \<times> int))" where
  "getdel m k t =
     (case m k of
        None \<Rightarrow> (None, m)
      | Some (v, expiry) \<Rightarrow> if t > expiry then (None, m(k := None)) else (Some v, m(k := None)))"

text \<open>\<open>XADD reports * payload ...\<close>.\<close>

definition xadd :: "'a list \<Rightarrow> 'a \<Rightarrow> 'a list" where
  "xadd xs v = xs @ [v]"

section \<open>Helpers of the server\<close>

text \<open>\<open>verifyCaptcha\<close>: skipped when no secret is configured.\<close>

definition verifyCaptcha :: "config \<Rightarrow> bool \<Rightarrow> bool" where
  "verifyCaptcha cfg verdict =
     (case RECAPTCHA_SECRET cfg of
        None \<Rightarrow> True
      | Some s \<Rightarrow> if s = [] then True else verdict)"

definition createLiveKitToken :: "string \<Rightarrow> string \<Rightarrow> token" where
  "createLiveKitToken ident rm =
     \<lparr> tok_identity = ident, tok_ttl = ''1h'', tok_roomJoin = True, tok_room = rm,
       tok_canPublish = True, tok_canSubscribe = True \<rparr>"

text \<open>\<open>getCountryFromReq\<close>: \<open>g?.country || null\<close>.\<close>

definition getCountryFromReq :: "conn \<Rightarrow> string option" where
  "getCountryFromReq ws =
     (case geo_country ws of
        None \<Rightarrow> None
      | Some c \<Rightarrow> if c = [] then None else Some c)"

definition safeSend :: "conn \<Rightarrow> out_msg \<Rightarrow> out_msg list" where
  "safeSend ws obj = (if ws_open ws then [obj] else [])"

text \<open>\<open>Array.prototype.findIndex\<close>: the first index that satisfies, or \<open>-1\<close>.\<close>

fun findIndex :: "('a \<Rightarrow> bool) \<Rightarrow> 'a list \<Rightarrow> int" where
  "findIndex P [] = -1"
| "findIndex P (x # xs) =
     (if P x then 0 else (let r = findIndex P xs in if r = -1 then -1 else r + 1))"

definition countryBiasMatch :: "config \<Rightarrow> entry list \<Rightarrow> string option \<Rightarrow> real \<Rightarrow> int" where
  "countryBiasMatch cfg list prefer r =
     (if prefer = None \<or> prefer = Some [] then 0
      else let idx = findIndex (\<lambda>x. entry_country x = prefer) list
           in if idx = -1 then 0
              else if r < MATCH_SAME_COUNTRY_BIAS cfg then idx
              else 0)"

text \<open>\<open>xs[i]\<close>: \<open>undefined\<close> (\<open>None\<close>) out of range.\<close>

definition at_index :: "'a list \<Rightarrow> int \<Rightarrow> 'a option" where
  "at_index xs i = (if 0 \<le> i \<and> i < int (length xs) then Some (xs ! nat i) else None)"

section \<open>The find handler\<close>

text \<open>\<open>p.tags?.some(t => tags.has(t))\<close> and the language test of the scan.\<close>

definition overlap :: "string list \<Rightarrow> entry \<Rightarrow> bool" where
  "overlap tags p = list_ex (\<lambda>t. t \<in> set tags) (entry_tags p)"

definition langOK :: "string \<Rightarrow> entry \<Rightarrow> bool" where
  "langOK lang p = (lang = [] \<or> entry_lang p = [] \<or> entry_lang p = lang)"

text \<open>
  The loop \<open>for (let i=0;i<parsed.length;i++) { ... if (overlap || langOK) { idx = i; break; } }\<close>,
  from position \<open>i\<close> with the current \<open>idx\<close>.
\<close>

function scan :: "entry list \<Rightarrow> string list \<Rightarrow> string \<Rightarrow> nat \<Rightarrow> int \<Rightarrow> int" where
  "scan parsed tags lang i idx =
     (if i < length parsed then
        (let p = parsed ! i in
         if overlap tags p \<or> langOK lang p then int i
         else scan parsed tags lang (i + 1) idx)
      else idx)"
  by pat_completeness auto
termination
  by (relation "measure (\<lambda>(parsed, tags, lang, i, idx). length parsed - i)") auto

text \<open>Lines 167 to 176: the index after the country bias and the scan.\<close>

definition select_idx :: "config \<Rightarrow> entry list \<Rightarrow> string option \<Rightarrow> string list \<Rightarrow> string \<Rightarrow> real \<Rightarrow> int" where
  "select_idx cfg parsed country tags lang r =
     scan parsed tags lang 0 (countryBiasMatch cfg parsed country r)"

text \<open>Line 177: \<open>const chosen = parsed[idx] || parsed[0]\<close>.\<close>

definition chosen_of :: "entry list \<Rightarrow> int \<Rightarrow> entry option" where
  "chosen_of parsed idx =
     (case at_index parsed idx of
        Some c \<Rightarrow> Some c
      | None \<Rightarrow> at_index parsed 0)"

text \<open>Lines 167 to 177 together: the partner taken from the snapshot \<open>parsed\<close>.\<close>

definition choose_partner :: "config \<Rightarrow> string option \<Rightarrow> entry \<Rightarrow> real \<Rightarrow> entry list \<Rightarrow> entry option" where
  "choose_partner cfg country entry r parsed =
     chosen_of parsed (select_idx cfg parsed country (entry_tags entry) (entry_lang entry) r)"

text \<open>Line 147: \<open>const last = nextCooldown.get(ws.id) || 0\<close>.\<close>

definition last_mark :: "world \<Rightarrow> conn \<Rightarrow> int" where
  "last_mark w ws = (case nextCooldown w (ws_id ws) of None \<Rightarrow> 0 | Some t \<Rightarrow> t)"

text \<open>The entry the handler builds from the message (lines 153 to 160).\<close>

definition make_entry :: "conn \<Rightarrow> string list option \<Rightarrow> string \<Rightarrow> int \<Rightarrow> entry" where
  "make_entry ws tags lang t =
     \<lparr> entry_id = ws_id ws,
       entry_ts = t,
       entry_tags = (case tags of Some ts \<Rightarrow> take 5 ts | None \<Rightarrow> []),
       entry_lang = take 16 lang,
       entry_country = getCountryFromReq ws \<rparr>"

text \<open>
  The snapshot \<open>lrange(waitingKey, 0, Math.min(50, len-1))\<close> of a list whose length
  \<open>len\<close> was read before.
\<close>

definition snapshot :: "entry list \<Rightarrow> int \<Rightarrow> entry list" where
  "snapshot q len = lrange q 0 (min 50 (len - 1))"

text \<open>
  The handler of a \<open>find\<close> message. Each \<open>await\<close> on a Redis command is a point where
  other handlers and other processes run: \<open>env k\<close> is what they do to the shared state
  before the \<open>k\<close>-th point of this run (1 \<open>llen\<close>, 2 \<open>lrange\<close>, 3 \<open>lrem\<close>,
  4 \<open>setex\<close> or \<open>rpush\<close>; 0 is the wait for the verifier). With an undefined \<open>chosen\<close>
  the command removes nothing and \<open>chosen.id\<close> throws before anything is sent.
\<close>

definition find_handler ::
  "config \<Rightarrow> (nat \<Rightarrow> world \<Rightarrow> world) \<Rightarrow> conn \<Rightarrow> string list option \<Rightarrow> string \<Rightarrow> ext \<Rightarrow> world \<Rightarrow> outcome" where
  "find_handler cfg env ws tags lang x w0 =
     (let w = env 0 w0 in
      if \<not> verifyCaptcha cfg (captcha_verdict x) then
        (w, safeSend ws (MsgError ''captcha_failed''), None)
      else
        let last = last_mark w ws in
        if now x - last < NEXT_COOLDOWN_SECONDS cfg * 1000 then
          (w, safeSend ws (MsgCooldown
                 \<lceil>real_of_int (NEXT_COOLDOWN_SECONDS cfg * 1000 - (now x - last)) / 1000\<rceil>), None)
        else
          let entry = make_entry ws tags lang (now x);
              w1 = env 1 w;
              len = llen (waiting w1)
          in if len > 0 then
               let w2 = env 2 w1;
                   parsed = snapshot (waiting w2) len;
                   chosen = choose_partner cfg (getCountryFromReq ws) entry (rnd x) parsed;
                   w3 = env 3 w2
               in case chosen of
                    None \<Rightarrow> (w3, [], Some TypeError)
                  | Some c \<Rightarrow>
                      let w3' = w3\<lparr>waiting := snd (lrem (waiting w3) c)\<rparr>;
                          rm = ''pair_'' @ room_uid x;
                          tokenSelf = createLiveKitToken (ws_id ws) rm;
                          tokenPeer = createLiveKitToken (entry_id c) rm;
                          sent = safeSend ws (MsgMatched rm tokenSelf (entry_id c));
                          w3'' = w3'\<lparr>currentRoom := (currentRoom w3')(ws_id ws \<mapsto> rm)\<rparr>;
                          w4 = env 4 w3''
                      in (w4\<lparr>mailbox := setex (mailbox w4) (entry_id c) 60
                                 \<lparr>asg_room = rm, asg_token = tokenPeer, asg_partner = ws_id ws\<rparr> (now x)\<rparr>,
                          sent, None)
             else
               let w4 = env 4 w1
               in (w4\<lparr>waiting := rpush (waiting w4) entry\<rparr>, safeSend ws MsgQueued, None))"

text \<open>A run with nothing else running between its steps.\<close>

definition alone :: "nat \<Rightarrow> world \<Rightarrow> world" where
  "alone k w = w"

section \<open>The other handlers\<close>

text \<open>The handler of \<open>poll\<close>: \<open>getdel\<close> of the own mailbox key, then \<open>matched\<close>.\<close>

definition poll_handler :: "conn \<Rightarrow> ext \<Rightarrow> world \<Rightarrow> outcome" where
  "poll_handler ws x w =
     (case getdel (mailbox w) (ws_id ws) (now x) of
        (None, mb) \<Rightarrow> (w\<lparr>mailbox := mb\<rparr>, [], None)
      | (Some p, mb) \<Rightarrow>
          (w\<lparr>mailbox := mb, currentRoom := (currentRoom w)(ws_id ws \<mapsto> asg_room p)\<rparr>,
           safeSend ws (MsgMatched (asg_room p) (asg_token p) (asg_partner p)), None))"

text \<open>Polls of one connection one after the other, with everything they send.\<close>

fun poll_many :: "conn \<Rightarrow> ext list \<Rightarrow> world \<Rightarrow> world \<times> out_msg list" where
  "poll_many ws [] w = (w, [])"
| "poll_many ws (x # xs) w =
     (case poll_handler ws x w of
        (w', sent, err) \<Rightarrow> (case poll_many ws xs w' of (w'', sent') \<Rightarrow> (w'', sent @ sent')))"

text \<open>The handlers of \<open>next\<close> and \<open>leave\<close>.\<close>

definition next_handler :: "conn \<Rightarrow> ext \<Rightarrow> world \<Rightarrow> outcome" where
  "next_handler ws x w =
     (w\<lparr>nextCooldown := (nextCooldown w)(ws_id ws \<mapsto> now x)\<rparr>,
      safeSend ws MsgLeft @ safeSend ws MsgQueued, None)"

definition leave_handler :: "conn \<Rightarrow> ext \<Rightarrow> world \<Rightarrow> outcome" where
  "leave_handler ws x w =
     (w\<lparr>nextCooldown := (nextCooldown w)(ws_id ws \<mapsto> now x)\<rparr>, safeSend ws MsgLeft, None)"

text \<open>
  \<open>reportSchema.validate\<close> of Joi, \<open>True\<close> when it reports no error: \<open>reason\<close> a
  string of 1 to 200 characters, \<open>peerId\<close> and \<open>room\<close> non-empty strings, and no key
  the schema does not name.
\<close>

definition reportSchema :: "report_object \<Rightarrow> bool" where
  "reportSchema obj =
     ((case ro_reason obj of None \<Rightarrow> False | Some r \<Rightarrow> r \<noteq> [] \<and> length r \<le> 200)
      \<and> ro_peerId obj \<noteq> [] \<and> ro_room obj \<noteq> [] \<and> ro_other_keys obj = [])"

text \<open>
  The handler of \<open>report\<close>, for a validator \<open>validate\<close>. \<open>keys\<close> are the keys of the
  message besides \<open>type\<close>, \<open>reason\<close>, \<open>peerId\<close> and \<open>room\<close>.
\<close>

definition report_handler ::
  "(report_object \<Rightarrow> bool) \<Rightarrow> conn \<Rightarrow> string option \<Rightarrow> string option \<Rightarrow> string list \<Rightarrow> ext \<Rightarrow> world \<Rightarrow> outcome" where
  "report_handler validate ws reason peerId keys x w =
     (let obj = \<lparr> ro_reason = reason,
                  ro_peerId = (case peerId of None \<Rightarrow> [] | Some p \<Rightarrow> p),
                  ro_room = (case currentRoom w (ws_id ws) of None \<Rightarrow> [] | Some r \<Rightarrow> r),
                  ro_other_keys = ''type'' # keys \<rparr>;
          w' = (if validate obj then
                  w\<lparr>reports := xadd (reports w)
                       \<lparr> rep_reason = reason, rep_peerId = peerId,
                         rep_room = currentRoom w (ws_id ws), rep_reporter = ws_id ws,
                         rep_ts = now x \<rparr>\<rparr>
                else w)
      in (w', safeSend ws MsgOk, None))"

text \<open>The message handler: one branch for each \<open>msg.type\<close>, nothing for any other.\<close>

definition on_message ::
  "config \<Rightarrow> (nat \<Rightarrow> world \<Rightarrow> world) \<Rightarrow> conn \<Rightarrow> message \<Rightarrow> ext \<Rightarrow> world \<Rightarrow> outcome" where
  "on_message cfg env ws msg x w =
     (case msg of
        Find tags lang \<Rightarrow> find_handler cfg env ws tags lang x w
      | Poll \<Rightarrow> poll_handler ws x w
      | Next \<Rightarrow> next_handler ws x w
      | Leave \<Rightarrow> leave_handler ws x w
      | Report reason peerId keys \<Rightarrow> report_handler reportSchema ws reason peerId keys x w
      | Other \<Rightarrow> (w, [], None))"

text \<open>Messages handled one after the other, each run to its end before the next.\<close>

fun run :: "config \<Rightarrow> (conn \<times> message \<times> ext) list \<Rightarrow> world \<Rightarrow> world" where
  "run cfg [] w = w"
| "run cfg ((ws, msg, x) # es) w = run cfg es (fst (on_message cfg alone ws msg x w))"

text \<open>The server after its start: nothing waits, no mailbox key, no cooldown mark.\<close>

definition init_world :: world where
  "init_world = \<lparr> waiting = [], mailbox = Map.empty, reports = [],
                  nextCooldown = Map.empty, currentRoom = Map.empty \<rparr>"

text \<open>The defaults of the environment constants, with no verifier configured.\<close>

definition default_config :: config where
  "default_config = \<lparr> NEXT_COOLDOWN_SECONDS = 5, MATCH_SAME_COUNTRY_BIAS = 7 / 10,
                      RECAPTCHA_SECRET = None \<rparr>"

section \<open>Example inputs\<close>

definition ex_music :: entry where
  "ex_music = \<lparr> entry_id = ''w1'', entry_ts = 1000, entry_tags = [''music''], entry_lang = ''en'', entry_country = None \<rparr>"

definition ex_anime :: entry where
  "ex_anime = \<lparr> entry_id = ''w2'', entry_ts = 2000, entry_tags = [''anime''], entry_lang = ''en'', entry_country = None \<rparr>"

definition ex_french :: entry where
  "ex_french = \<lparr> entry_id = ''w3'', entry_ts = 3000, entry_tags = [''chess''], entry_lang = ''fr'', entry_country = None \<rparr>"

text \<open>Three connections, three readings of the outside, and some states.\<close>

definition ws_A :: conn where
  "ws_A = \<lparr> ws_id = ''A'', ws_open = True, geo_country = None \<rparr>"

definition ws_B :: conn where
  "ws_B = \<lparr> ws_id = ''B'', ws_open = True, geo_country = None \<rparr>"

definition ws_C :: conn where
  "ws_C = \<lparr> ws_id = ''C'', ws_open = True, geo_country = None \<rparr>"

definition x_1 :: ext where
  "x_1 = \<lparr> captcha_verdict = True, now = 1000000, room_uid = ''r1'', rnd = 0 \<rparr>"

definition x_2 :: ext where
  "x_2 = \<lparr> captcha_verdict = True, now = 1001000, room_uid = ''r2'', rnd = 0 \<rparr>"

definition x_3 :: ext where
  "x_3 = \<lparr> captcha_verdict = True, now = 1000002, room_uid = ''r3'', rnd = 0 \<rparr>"

definition x_4 :: ext where
  "x_4 = \<lparr> captcha_verdict = True, now = 1001002, room_uid = ''r4'', rnd = 0 \<rparr>"

definition x_bad :: ext where
  "x_bad = \<lparr> captcha_verdict = False, now = 1002000, room_uid = ''r5'', rnd = 0 \<rparr>"

definition cfg_secret :: config where
  "cfg_secret = default_config\<lparr> RECAPTCHA_SECRET := Some ''secret'' \<rparr>"

definition w_one :: world where
  "w_one = init_world\<lparr> waiting := [ex_anime] \<rparr>"

definition w_two :: world where
  "w_two = init_world\<lparr> waiting := [ex_french, ex_music] \<rparr>"

definition w_marked :: world where
  "w_marked = init_world\<lparr> nextCooldown := [''A'' \<mapsto> 1000000] \<rparr>"

definition w_mail :: world where
  "w_mail = init_world\<lparr> mailbox := [''A'' \<mapsto>
      (\<lparr>asg_room = ''pair_r1'', asg_token = createLiveKitToken ''A'' ''pair_r1'', asg_partner = ''B''\<rparr>, 1060000)] \<rparr>"

text \<open>
  Another requester, \<open>C\<close>, on another process, whose whole \<open>find\<close> runs between
  the \<open>lrange\<close> and the \<open>lrem\<close> of the run under study.
\<close>

definition env_race :: "nat \<Rightarrow> world \<Rightarrow> world" where
  "env_race k w = (if k = 3 then fst (find_handler default_config alone ws_C None [] x_4 w) else w)"

text \<open>
  The same requester \<open>C\<close>, whose whole \<open>find\<close> runs between the \<open>llen\<close> and the
  \<open>lrange\<close> of the run under study.
\<close>

definition env_gone :: "nat \<Rightarrow> world \<Rightarrow> world" where
  "env_gone k w = (if k = 2 then fst (find_handler default_config alone ws_C None [] x_4 w) else w)"

text \<open>
  The \<open>rpush\<close> of an earlier \<open>find\<close> of connection \<open>A\<close>, which read \<open>llen\<close> before the
  run under study did, landing before the \<open>rpush\<close> of that run.
\<close>

definition env_first :: "nat \<Rightarrow> world \<Rightarrow> world" where
  "env_first k w =
     (if k = 4 then w\<lparr>waiting := rpush (waiting w) (make_entry ws_A (Some [''anime'']) ''en'' 1000000)\<rparr>
      else w)"

text \<open>
  A queue of 51 entries of 51 connections: fifty that wait with the language \<open>fr\<close> and
  the tag \<open>chess\<close>, then one with the tag \<open>anime\<close>.
\<close>

definition waiter :: "nat \<Rightarrow> entry" where
  "waiter k = \<lparr> entry_id = CHR ''u'' # replicate k (CHR ''x''), entry_ts = int k,
                entry_tags = [''chess''], entry_lang = ''fr'', entry_country = None \<rparr>"

definition q51 :: "entry list" where
  "q51 = map waiter [0..<50] @ [ex_anime]"

section \<open>Unfolding the examples and the handler\<close>

lemmas ex_defs = ws_A_def ws_B_def ws_C_def x_1_def x_2_def x_3_def x_4_def x_bad_def cfg_secret_def w_one_def w_two_def
  w_marked_def w_mail_def ex_anime_def ex_music_def ex_french_def default_config_def init_world_def

lemmas eval_defs = find_handler_def Let_def alone_def verifyCaptcha_def last_mark_def make_entry_def
  getCountryFromReq_def llen_def snapshot_def lrange_def choose_partner_def select_idx_def
  countryBiasMatch_def chosen_of_def at_index_def overlap_def langOK_def lrem_def rpush_def setex_def
  safeSend_def createLiveKitToken_def on_message_def

section \<open>Properties of the selection\<close>

lemma scan_first:
  assumes "i \<le> j" "j < length parsed"
    and "overlap tags (parsed ! j) \<or> langOK lang (parsed ! j)"
    and "\<forall>k. i \<le> k \<and> k < j \<longrightarrow> \<not> overlap tags (parsed ! k) \<and> \<not> langOK lang (parsed ! k)"
  shows "scan parsed tags lang i idx = int j"
  using assms
proof (induction "j - i" arbitrary: i)
  case 0
  then have "i = j" by simp
  with 0 show ?case by (subst scan.simps) simp
next
  case (Suc n)
  then have lt: "i < j" by simp
  with Suc.prems have no: "\<not> overlap tags (parsed ! i) \<and> \<not> langOK lang (parsed ! i)" by simp
  have "scan parsed tags lang (i + 1) idx = int j"
    using Suc.hyps(1)[of "i + 1"] Suc.hyps(2) Suc.prems lt by simp
  with no lt Suc.prems(2) show ?case by (subst scan.simps) simp
qed

lemma scan_none:
  assumes "\<forall>k. i \<le> k \<and> k < length parsed \<longrightarrow> \<not> overlap tags (parsed ! k) \<and> \<not> langOK lang (parsed ! k)"
  shows "scan parsed tags lang i idx = idx"
  using assms
proof (induction "length parsed - i" arbitrary: i)
  case 0
  then show ?case by (subst scan.simps) simp
next
  case (Suc n)
  then have lt: "i < length parsed" by simp
  have "scan parsed tags lang (i + 1) idx = idx"
    using Suc.hyps(1)[of "i + 1"] Suc.hyps(2) Suc.prems by simp
  with lt Suc.prems show ?case by (subst scan.simps) simp
qed

lemma findIndex_range: "findIndex P xs = -1 \<or> (0 \<le> findIndex P xs \<and> findIndex P xs < int (length xs))"
  by (induction xs) (auto simp: Let_def)

lemma countryBiasMatch_range:
  "parsed \<noteq> [] \<Longrightarrow> 0 \<le> countryBiasMatch cfg parsed country r \<and> countryBiasMatch cfg parsed country r < int (length parsed)"
  using findIndex_range[of "\<lambda>x. entry_country x = country" parsed]
  by (auto simp: countryBiasMatch_def Let_def)

lemma scan_range:
  "0 \<le> idx \<Longrightarrow> idx < int (length parsed) \<Longrightarrow>
   0 \<le> scan parsed tags lang i idx \<and> scan parsed tags lang i idx < int (length parsed)"
proof (induction parsed tags lang i idx rule: scan.induct)
  case (1 parsed tags lang i idx)
  show ?case
  proof (cases "i < length parsed")
    case True
    show ?thesis
    proof (cases "overlap tags (parsed ! i) \<or> langOK lang (parsed ! i)")
      case True
      with \<open>i < length parsed\<close> show ?thesis by (subst scan.simps, subst (2) scan.simps) simp
    next
      case False
      with \<open>i < length parsed\<close> 1 show ?thesis by (subst scan.simps, subst (2) scan.simps) simp
    qed
  next
    case False
    with 1 show ?thesis by (subst scan.simps, subst (2) scan.simps) simp
  qed
qed

lemma select_idx_range:
  "parsed \<noteq> [] \<Longrightarrow> 0 \<le> select_idx cfg parsed country tags lang r \<and> select_idx cfg parsed country tags lang r < int (length parsed)"
  unfolding select_idx_def by (rule scan_range) (use countryBiasMatch_range in auto)

lemma snapshot_take: "snapshot q (llen q) = take 51 q"
  by (cases q) (auto simp: snapshot_def llen_def lrange_def Let_def min_def)

lemma find_handler_rejected_captcha:
  "\<not> verifyCaptcha cfg (captcha_verdict x) \<Longrightarrow>
   find_handler cfg env ws tags lang x w0 = (env 0 w0, safeSend ws (MsgError ''captcha_failed''), None)"
  by (simp add: find_handler_def Let_def)

lemma find_handler_rejected_cooldown:
  "verifyCaptcha cfg (captcha_verdict x) \<Longrightarrow>
   now x - last_mark (env 0 w0) ws < NEXT_COOLDOWN_SECONDS cfg * 1000 \<Longrightarrow>
   find_handler cfg env ws tags lang x w0 =
     (env 0 w0,
      safeSend ws (MsgCooldown \<lceil>real_of_int (NEXT_COOLDOWN_SECONDS cfg * 1000 - (now x - last_mark (env 0 w0) ws)) / 1000\<rceil>),
      None)"
  by (simp add: find_handler_def Let_def)

lemma find_handler_queued:
  "verifyCaptcha cfg (captcha_verdict x) \<Longrightarrow>
   \<not> now x - last_mark (env 0 w0) ws < NEXT_COOLDOWN_SECONDS cfg * 1000 \<Longrightarrow>
   waiting (env 1 (env 0 w0)) = [] \<Longrightarrow>
   find_handler cfg env ws tags lang x w0 =
     ((env 4 (env 1 (env 0 w0)))\<lparr>waiting := waiting (env 4 (env 1 (env 0 w0))) @ [make_entry ws tags lang (now x)]\<rparr>,
      safeSend ws MsgQueued, None)"
  by (simp add: find_handler_def Let_def llen_def rpush_def)

lemma find_handler_matched:
  assumes "verifyCaptcha cfg (captcha_verdict x)"
    and "\<not> now x - last_mark (env 0 w0) ws < NEXT_COOLDOWN_SECONDS cfg * 1000"
    and "waiting (env 1 (env 0 w0)) \<noteq> []"
    and "choose_partner cfg (getCountryFromReq ws) (make_entry ws tags lang (now x)) (rnd x)
           (snapshot (waiting (env 2 (env 1 (env 0 w0)))) (llen (waiting (env 1 (env 0 w0))))) = Some c"
    and "w3 = env 3 (env 2 (env 1 (env 0 w0)))"
    and "rm = ''pair_'' @ room_uid x"
    and "w4 = env 4 (w3\<lparr>waiting := remove1 c (waiting w3), currentRoom := (currentRoom w3)(ws_id ws \<mapsto> rm)\<rparr>)"
  shows "find_handler cfg env ws tags lang x w0 =
     (w4\<lparr>mailbox := (mailbox w4)(entry_id c \<mapsto>
           (\<lparr>asg_room = rm, asg_token = createLiveKitToken (entry_id c) rm, asg_partner = ws_id ws\<rparr>,
            now x + 60 * 1000))\<rparr>,
      safeSend ws (MsgMatched rm (createLiveKitToken (ws_id ws) rm) (entry_id c)), None)"
  using assms by (simp add: find_handler_def Let_def llen_def lrem_def setex_def)

lemma choose_partner_total:
  assumes "parsed \<noteq> []"
  shows "\<exists>i<length parsed. choose_partner cfg country entry r parsed = Some (parsed ! i)
           \<and> select_idx cfg parsed country (entry_tags entry) (entry_lang entry) r = int i"
proof -
  let ?idx = "select_idx cfg parsed country (entry_tags entry) (entry_lang entry) r"
  from select_idx_range[OF assms] have r: "0 \<le> ?idx" "?idx < int (length parsed)" by auto
  then have "nat ?idx < length parsed" by simp
  moreover have "choose_partner cfg country entry r parsed = Some (parsed ! nat ?idx)"
    using r by (simp add: choose_partner_def chosen_of_def at_index_def)
  moreover have "?idx = int (nat ?idx)" using r by simp
  ultimately show ?thesis by blast
qed

lemma choose_partner_empty: "choose_partner cfg country entry r [] = None"
  by (simp add: choose_partner_def chosen_of_def at_index_def)

lemma choose_partner_singleton: "choose_partner cfg country entry r [e] = Some e"
  using choose_partner_total[of "[e]" cfg country entry r] by auto

lemma snapshot_nonempty: "q \<noteq> [] \<Longrightarrow> snapshot q (llen q) \<noteq> []"
  by (simp add: snapshot_take)

section \<open>C1: which entry the scan selects\<close>

text \<open>
  C1 as stated fails. The requester has the tag \<open>anime\<close> and the language \<open>en\<close>; the
  pool holds an entry with the language \<open>en\<close> and no common tag, then an entry with
  the tag \<open>anime\<close>. The scan stops at index 0, on the language, for either outcome of
  the draw; the first entry that shares a tag is at index 1.
\<close>

theorem select_idx_first_tag_counterexample:
  "select_idx default_config [ex_music, ex_anime] None [''anime''] ''en'' 0 = 0
   \<and> select_idx default_config [ex_music, ex_anime] None [''anime''] ''en'' 1 = 0
   \<and> \<not> overlap [''anime''] ([ex_music, ex_anime] ! 0)
   \<and> overlap [''anime''] ([ex_music, ex_anime] ! 1)"
  by (simp add: select_idx_def countryBiasMatch_def ex_music_def ex_anime_def overlap_def langOK_def)

text \<open>
  C1, amended. When some entry of the pool shares a tag with the requester, the index
  after the scan is the first index, in pool order, whose entry shares a tag with the
  requester or passes the language test (a language unset on either side, or the same
  language), whatever the draw of the country bias. That index is never after the first
  entry that shares a tag, and it is that entry when no entry before it passes the
  language test.
\<close>

theorem select_idx_first_compatible:
  assumes "list_ex (overlap tags) parsed"
  shows "\<exists>i<length parsed.
           (\<forall>r. select_idx cfg parsed country tags lang r = int i)
         \<and> (overlap tags (parsed ! i) \<or> langOK lang (parsed ! i))
         \<and> (\<forall>j<i. \<not> overlap tags (parsed ! j) \<and> \<not> langOK lang (parsed ! j))
         \<and> (\<forall>k<length parsed. overlap tags (parsed ! k) \<longrightarrow> i \<le> k)
         \<and> (\<forall>k<length parsed. overlap tags (parsed ! k) \<and> (\<forall>j<k. \<not> overlap tags (parsed ! j))
                \<and> (\<forall>j<k. \<not> langOK lang (parsed ! j)) \<longrightarrow> i = k)"
proof -
  let ?C = "\<lambda>i. i < length parsed \<and> (overlap tags (parsed ! i) \<or> langOK lang (parsed ! i))"
  from assms obtain k0 where k0: "k0 < length parsed" "overlap tags (parsed ! k0)"
    by (auto simp: list_ex_iff in_set_conv_nth)
  then have ex: "?C k0" by simp
  define i where "i = (LEAST i. ?C i)"
  have Ci: "?C i" unfolding i_def using ex by (rule LeastI)
  have least: "\<And>j. ?C j \<Longrightarrow> i \<le> j" unfolding i_def by (rule Least_le)
  have before: "\<forall>j<i. \<not> overlap tags (parsed ! j) \<and> \<not> langOK lang (parsed ! j)"
  proof (intro allI impI)
    fix j assume "j < i"
    with Ci have "j < length parsed" by simp
    with \<open>j < i\<close> least[of j] show "\<not> overlap tags (parsed ! j) \<and> \<not> langOK lang (parsed ! j)"
      by auto
  qed
  have sel: "\<forall>r. select_idx cfg parsed country tags lang r = int i"
    unfolding select_idx_def using scan_first[of 0 i parsed tags lang] Ci before by simp
  have le: "\<forall>k<length parsed. overlap tags (parsed ! k) \<longrightarrow> i \<le> k"
    using least by simp
  have eq: "\<forall>k<length parsed. overlap tags (parsed ! k) \<and> (\<forall>j<k. \<not> overlap tags (parsed ! j))
                \<and> (\<forall>j<k. \<not> langOK lang (parsed ! j)) \<longrightarrow> i = k"
  proof (intro allI impI)
    fix k assume k: "k < length parsed"
      and h: "overlap tags (parsed ! k) \<and> (\<forall>j<k. \<not> overlap tags (parsed ! j)) \<and> (\<forall>j<k. \<not> langOK lang (parsed ! j))"
    from k h le have "i \<le> k" by simp
    moreover have "\<not> i < k" using h Ci by auto
    ultimately show "i = k" by simp
  qed
  from Ci sel before le eq show ?thesis by blast
qed

text \<open>
  The amended C1 at a pool of three: the first entry is French with another tag, the
  second passes on the language only, the third shares the tag. The index is 1.
\<close>

theorem select_idx_first_compatible_witness:
  "list_ex (overlap [''anime'']) [ex_french, ex_music, ex_anime]
   \<and> select_idx default_config [ex_french, ex_music, ex_anime] None [''anime''] ''en'' 0 = 1"
proof -
  let ?pool = "[ex_french, ex_music, ex_anime]"
  have h1: "list_ex (overlap [''anime'']) ?pool"
    by (simp add: overlap_def ex_anime_def ex_music_def ex_french_def)
  from select_idx_first_compatible[OF h1, of default_config None "''en''"]
  obtain i where i: "i < length ?pool"
     "\<forall>r. select_idx default_config ?pool None [''anime''] ''en'' r = int i"
     "overlap [''anime''] (?pool ! i) \<or> langOK ''en'' (?pool ! i)"
     "\<forall>j<i. \<not> overlap [''anime''] (?pool ! j) \<and> \<not> langOK ''en'' (?pool ! j)"
    by blast
  have c0: "\<not> overlap [''anime''] (?pool ! 0) \<and> \<not> langOK ''en'' (?pool ! 0)"
    by (simp add: overlap_def langOK_def ex_french_def)
  have c1: "langOK ''en'' (?pool ! 1)" by (simp add: langOK_def ex_music_def)
  have "i \<noteq> 0" using i(3) c0 by metis
  moreover have "\<not> 1 < i" using i(4) c1 by blast
  ultimately have "i = 1" by simp
  with i(2) have a: "select_idx default_config ?pool None [''anime''] ''en'' 0 = 1" by simp
  from h1 a show ?thesis by simp
qed

section \<open>The find handler run alone\<close>

lemma findIndex_none: "\<forall>x\<in>set xs. \<not> P x \<Longrightarrow> findIndex P xs = -1"
  by (induction xs) auto

lemma countryBiasMatch_zero:
  "\<not> r < MATCH_SAME_COUNTRY_BIAS cfg \<or> (\<forall>p\<in>set parsed. entry_country p \<noteq> country) \<Longrightarrow>
   countryBiasMatch cfg parsed country r = 0"
  by (auto simp: countryBiasMatch_def Let_def findIndex_none)

lemma select_idx_fallback:
  assumes "\<forall>p\<in>set parsed. \<not> overlap tags p \<and> \<not> langOK lang p"
  shows "select_idx cfg parsed country tags lang r = countryBiasMatch cfg parsed country r"
  unfolding select_idx_def using assms by (intro scan_none) simp

lemma find_handler_alone_queued:
  "verifyCaptcha cfg (captcha_verdict x) \<Longrightarrow>
   \<not> now x - last_mark w ws < NEXT_COOLDOWN_SECONDS cfg * 1000 \<Longrightarrow>
   waiting w = [] \<Longrightarrow>
   find_handler cfg alone ws tags lang x w =
     (w\<lparr>waiting := [make_entry ws tags lang (now x)]\<rparr>, safeSend ws MsgQueued, None)"
  using find_handler_queued[of cfg x alone w ws tags lang] by (simp add: alone_def)

lemma find_handler_alone_matched:
  assumes "verifyCaptcha cfg (captcha_verdict x)"
    and "\<not> now x - last_mark w ws < NEXT_COOLDOWN_SECONDS cfg * 1000"
    and "waiting w \<noteq> []"
    and "choose_partner cfg (getCountryFromReq ws) (make_entry ws tags lang (now x)) (rnd x)
           (snapshot (waiting w) (llen (waiting w))) = Some c"
    and "rm = ''pair_'' @ room_uid x"
  shows "find_handler cfg alone ws tags lang x w =
     (w\<lparr>waiting := remove1 c (waiting w),
        currentRoom := (currentRoom w)(ws_id ws \<mapsto> rm),
        mailbox := (mailbox w)(entry_id c \<mapsto>
           (\<lparr>asg_room = rm, asg_token = createLiveKitToken (entry_id c) rm, asg_partner = ws_id ws\<rparr>,
            now x + 60 * 1000))\<rparr>,
      safeSend ws (MsgMatched rm (createLiveKitToken (ws_id ws) rm) (entry_id c)), None)"
  using find_handler_matched[of cfg x alone w ws tags lang c _ rm] assms by (simp add: alone_def)

lemma choose_partner_snapshot:
  assumes "q \<noteq> []"
  shows "\<exists>c \<in> set (take 51 q). choose_partner cfg country entry r (snapshot q (llen q)) = Some c"
proof -
  have ne: "take 51 q \<noteq> []" using assms by simp
  from choose_partner_total[OF ne, of cfg country entry r]
  obtain i where "i < length (take 51 q)" "choose_partner cfg country entry r (take 51 q) = Some (take 51 q ! i)"
    by blast
  then show ?thesis unfolding snapshot_take using nth_mem by metis
qed

section \<open>C6: the selection is total\<close>

text \<open>
  The part of C6 that holds on the code. On a non-empty snapshot the selection returns
  an entry of the snapshot, and it returns none exactly on the empty snapshot. When no
  entry passes the scan and the country bias picks nothing (the draw fails or no entry
  has the country), the entry returned is the oldest, at index 0. In the handler, run
  with nothing in between and past the verifier and the cooldown, the snapshot is empty
  exactly when the queue is: on an empty queue the requester is appended and told
  \<open>queued\<close>; on a non-empty queue the partner is one of its first entries, the
  requester is told \<open>matched\<close> with it, and that entry leaves the queue.
\<close>

theorem choose_partner_total_nonempty:
  "(parsed \<noteq> [] \<longrightarrow> (\<exists>i<length parsed. choose_partner cfg country entry r parsed = Some (parsed ! i)))
   \<and> (choose_partner cfg country entry r parsed = None \<longleftrightarrow> parsed = [])
   \<and> (snapshot (waiting w) (llen (waiting w)) = [] \<longleftrightarrow> waiting w = [])
   \<and> (parsed \<noteq> []
        \<and> (\<forall>p\<in>set parsed. \<not> overlap (entry_tags entry) p \<and> \<not> langOK (entry_lang entry) p)
        \<and> (\<not> r < MATCH_SAME_COUNTRY_BIAS cfg \<or> (\<forall>p\<in>set parsed. entry_country p \<noteq> country))
        \<longrightarrow> choose_partner cfg country entry r parsed = Some (parsed ! 0))
   \<and> (verifyCaptcha cfg (captcha_verdict x)
        \<and> \<not> now x - last_mark w ws < NEXT_COOLDOWN_SECONDS cfg * 1000 \<longrightarrow>
        (waiting w = [] \<longrightarrow>
           find_handler cfg alone ws tags lang x w =
             (w\<lparr>waiting := [make_entry ws tags lang (now x)]\<rparr>, safeSend ws MsgQueued, None))
      \<and> (waiting w \<noteq> [] \<longrightarrow>
           (\<exists>c \<in> set (take 51 (waiting w)).
              choose_partner cfg (getCountryFromReq ws) (make_entry ws tags lang (now x)) (rnd x)
                (snapshot (waiting w) (llen (waiting w))) = Some c
            \<and> fst (snd (find_handler cfg alone ws tags lang x w)) =
                safeSend ws (MsgMatched (''pair_'' @ room_uid x)
                   (createLiveKitToken (ws_id ws) (''pair_'' @ room_uid x)) (entry_id c))
            \<and> waiting (fst (find_handler cfg alone ws tags lang x w)) = remove1 c (waiting w))))"
proof (intro conjI impI)
  assume "parsed \<noteq> []"
  from choose_partner_total[OF this, of cfg country entry r]
  show "\<exists>i<length parsed. choose_partner cfg country entry r parsed = Some (parsed ! i)" by blast
next
  show "choose_partner cfg country entry r parsed = None \<longleftrightarrow> parsed = []"
  proof (cases "parsed = []")
    case True
    then show ?thesis by (simp add: choose_partner_empty)
  next
    case False
    from choose_partner_total[OF this, of cfg country entry r] False show ?thesis by auto
  qed
next
  show "snapshot (waiting w) (llen (waiting w)) = [] \<longleftrightarrow> waiting w = []"
    by (simp add: snapshot_take)
next
  assume h: "parsed \<noteq> []
        \<and> (\<forall>p\<in>set parsed. \<not> overlap (entry_tags entry) p \<and> \<not> langOK (entry_lang entry) p)
        \<and> (\<not> r < MATCH_SAME_COUNTRY_BIAS cfg \<or> (\<forall>p\<in>set parsed. entry_country p \<noteq> country))"
  then have "select_idx cfg parsed country (entry_tags entry) (entry_lang entry) r = 0"
    using select_idx_fallback[of parsed "entry_tags entry" "entry_lang entry" cfg country r]
      countryBiasMatch_zero[of r cfg parsed country] by simp
  with h show "choose_partner cfg country entry r parsed = Some (parsed ! 0)"
    by (simp add: choose_partner_def chosen_of_def at_index_def)
next
  assume "verifyCaptcha cfg (captcha_verdict x) \<and> \<not> now x - last_mark w ws < NEXT_COOLDOWN_SECONDS cfg * 1000"
    and "waiting w = []"
  then show "find_handler cfg alone ws tags lang x w =
             (w\<lparr>waiting := [make_entry ws tags lang (now x)]\<rparr>, safeSend ws MsgQueued, None)"
    by (simp add: find_handler_alone_queued)
next
  assume a: "verifyCaptcha cfg (captcha_verdict x) \<and> \<not> now x - last_mark w ws < NEXT_COOLDOWN_SECONDS cfg * 1000"
    and ne: "waiting w \<noteq> []"
  from choose_partner_snapshot[OF ne, of cfg "getCountryFromReq ws" "make_entry ws tags lang (now x)" "rnd x"]
  obtain c where c: "c \<in> set (take 51 (waiting w))"
     "choose_partner cfg (getCountryFromReq ws) (make_entry ws tags lang (now x)) (rnd x)
                (snapshot (waiting w) (llen (waiting w))) = Some c" by blast
  have "find_handler cfg alone ws tags lang x w =
     (w\<lparr>waiting := remove1 c (waiting w),
        currentRoom := (currentRoom w)(ws_id ws \<mapsto> ''pair_'' @ room_uid x),
        mailbox := (mailbox w)(entry_id c \<mapsto>
           (\<lparr>asg_room = ''pair_'' @ room_uid x, asg_token = createLiveKitToken (entry_id c) (''pair_'' @ room_uid x), asg_partner = ws_id ws\<rparr>,
            now x + 60 * 1000))\<rparr>,
      safeSend ws (MsgMatched (''pair_'' @ room_uid x) (createLiveKitToken (ws_id ws) (''pair_'' @ room_uid x)) (entry_id c)), None)"
    using a ne c(2) by (intro find_handler_alone_matched) simp_all
  with c show "\<exists>c \<in> set (take 51 (waiting w)).
              choose_partner cfg (getCountryFromReq ws) (make_entry ws tags lang (now x)) (rnd x)
                (snapshot (waiting w) (llen (waiting w))) = Some c
            \<and> fst (snd (find_handler cfg alone ws tags lang x w)) =
                safeSend ws (MsgMatched (''pair_'' @ room_uid x)
                   (createLiveKitToken (ws_id ws) (''pair_'' @ room_uid x)) (entry_id c))
            \<and> waiting (fst (find_handler cfg alone ws tags lang x w)) = remove1 c (waiting w)"
    by (intro bexI[of _ c]) simp_all
qed

text \<open>
  That part at a snapshot of two entries that neither share a tag nor pass the language test,
  with a draw that fails: the oldest entry is returned. The handler on the empty queue
  appends the requester; on that queue of two it matches the oldest and leaves the other.
\<close>

theorem choose_partner_total_nonempty_witness:
  "[ex_french, ex_music] \<noteq> []
   \<and> choose_partner default_config None (make_entry ws_A (Some [''go'']) ''de'' 1000000) (9 / 10) [ex_french, ex_music]
       = Some ex_french
   \<and> choose_partner default_config None (make_entry ws_A (Some [''go'']) ''de'' 1000000) 0 [] = None
   \<and> find_handler default_config alone ws_A (Some [''go'']) ''de'' x_1 init_world
       = (init_world\<lparr>waiting := [make_entry ws_A (Some [''go'']) ''de'' (now x_1)]\<rparr>, safeSend ws_A MsgQueued, None)
   \<and> waiting (fst (find_handler default_config alone ws_A (Some [''go'']) ''de'' x_1 w_two)) = [ex_music]
   \<and> fst (snd (find_handler default_config alone ws_A (Some [''go'']) ''de'' x_1 w_two))
       = [MsgMatched ''pair_r1'' (createLiveKitToken ''A'' ''pair_r1'') ''w3'']"
proof -
  let ?E = "make_entry ws_A (Some [''go'']) ''de'' 1000000"
  note T1 = choose_partner_total_nonempty[where parsed = "[ex_french, ex_music]" and cfg = default_config
      and country = None and entry = ?E and r = "9 / 10" and x = x_1 and w = init_world and ws = ws_A
      and tags = "Some [''go'']" and lang = "''de''"]
  note T2 = choose_partner_total_nonempty[where parsed = "[]" and cfg = default_config
      and country = None and entry = ?E and r = 0 and x = x_1 and w = w_two and ws = ws_A
      and tags = "Some [''go'']" and lang = "''de''"]
  have pre: "verifyCaptcha default_config (captcha_verdict x_1)"
       "\<not> now x_1 - last_mark init_world ws_A < NEXT_COOLDOWN_SECONDS default_config * 1000"
       "\<not> now x_1 - last_mark w_two ws_A < NEXT_COOLDOWN_SECONDS default_config * 1000"
       "waiting init_world = []" "waiting w_two \<noteq> []"
    by (simp_all add: ex_defs verifyCaptcha_def last_mark_def)
  have nomatch: "\<forall>p\<in>set [ex_french, ex_music]. \<not> overlap (entry_tags ?E) p \<and> \<not> langOK (entry_lang ?E) p"
    by (simp add: ex_defs make_entry_def overlap_def langOK_def)
  have a: "choose_partner default_config None ?E (9 / 10) [ex_french, ex_music] = Some ex_french"
  proof -
    have "\<not> (9 / 10 :: real) < MATCH_SAME_COUNTRY_BIAS default_config" by (simp add: default_config_def)
    with T1 nomatch show ?thesis by simp
  qed
  have b: "choose_partner default_config None ?E 0 [] = None" using T2 by simp
  have c: "find_handler default_config alone ws_A (Some [''go'']) ''de'' x_1 init_world
       = (init_world\<lparr>waiting := [make_entry ws_A (Some [''go'']) ''de'' (now x_1)]\<rparr>, safeSend ws_A MsgQueued, None)"
    using T1 pre by simp
  from T2 pre obtain c where c': "c \<in> set (take 51 (waiting w_two))"
      "choose_partner default_config (getCountryFromReq ws_A) (make_entry ws_A (Some [''go'']) ''de'' (now x_1)) (rnd x_1)
         (snapshot (waiting w_two) (llen (waiting w_two))) = Some c"
      "fst (snd (find_handler default_config alone ws_A (Some [''go'']) ''de'' x_1 w_two)) =
         safeSend ws_A (MsgMatched (''pair_'' @ room_uid x_1) (createLiveKitToken (ws_id ws_A) (''pair_'' @ room_uid x_1)) (entry_id c))"
      "waiting (fst (find_handler default_config alone ws_A (Some [''go'']) ''de'' x_1 w_two)) = remove1 c (waiting w_two)"
    by blast
  have "choose_partner default_config (getCountryFromReq ws_A) (make_entry ws_A (Some [''go'']) ''de'' (now x_1)) (rnd x_1)
         (snapshot (waiting w_two) (llen (waiting w_two))) = Some ex_french"
    by (simp add: ex_defs eval_defs)
  with c'(2) have ce: "c = ex_french" by simp
  have d: "waiting (fst (find_handler default_config alone ws_A (Some [''go'']) ''de'' x_1 w_two)) = [ex_music]"
    using c'(4) ce by (simp add: w_two_def)
  have e: "fst (snd (find_handler default_config alone ws_A (Some [''go'']) ''de'' x_1 w_two))
       = [MsgMatched ''pair_r1'' (createLiveKitToken ''A'' ''pair_r1'') ''w3'']"
    using c'(3) ce by (simp add: ex_defs safeSend_def)
  from a b c d e show ?thesis by simp
qed

text \<open>A list emptied between \<open>llen\<close> and \<open>lrange\<close>, for any interference.\<close>

lemma snapshot_Nil: "snapshot [] len = []"
  by (simp add: snapshot_def lrange_def Let_def)

lemma find_handler_empty_snapshot:
  assumes "verifyCaptcha cfg (captcha_verdict x)"
    and "\<not> now x - last_mark (env 0 w0) ws < NEXT_COOLDOWN_SECONDS cfg * 1000"
    and "waiting (env 1 (env 0 w0)) \<noteq> []"
    and "waiting (env 2 (env 1 (env 0 w0))) = []"
  shows "find_handler cfg env ws tags lang x w0 = (env 3 (env 2 (env 1 (env 0 w0))), [], Some TypeError)"
  using assms by (simp add: find_handler_def Let_def llen_def snapshot_Nil choose_partner_empty)

text \<open>
  C6 fails on the code. The handler appends the requester only when \<open>llen\<close> answered
  0, and takes the snapshot later. One entry waits; \<open>B\<close> reads \<open>llen\<close> as 1; the
  \<open>find\<close> of \<open>C\<close> on another process matches and removes that entry; the
  \<open>lrange\<close> of \<open>B\<close> returns the empty pool. The selection returns none,
  \<open>chosen.id\<close> throws, and \<open>B\<close> is neither appended to the queue nor sent anything.
\<close>

theorem find_empty_snapshot_throws:
  "waiting w_one = [ex_anime]
   \<and> llen (waiting (env_gone 1 (env_gone 0 w_one))) = 1
   \<and> fst (snd (find_handler default_config alone ws_C None [] x_4 w_one))
       = [MsgMatched ''pair_r4'' (createLiveKitToken ''C'' ''pair_r4'') ''w2'']
   \<and> waiting (env_gone 2 (env_gone 1 (env_gone 0 w_one))) = []
   \<and> snapshot (waiting (env_gone 2 (env_gone 1 (env_gone 0 w_one)))) 1 = []
   \<and> choose_partner default_config (getCountryFromReq ws_B) (make_entry ws_B None [] (now x_2)) (rnd x_2) [] = None
   \<and> fst (snd (find_handler default_config env_gone ws_B None [] x_2 w_one)) = []
   \<and> snd (snd (find_handler default_config env_gone ws_B None [] x_2 w_one)) = Some TypeError
   \<and> waiting (fst (find_handler default_config env_gone ws_B None [] x_2 w_one)) = []"
proof -
  have h1: "verifyCaptcha default_config (captcha_verdict x_2)"
    by (simp add: ex_defs verifyCaptcha_def)
  have h2: "\<not> now x_2 - last_mark (env_gone 0 w_one) ws_B < NEXT_COOLDOWN_SECONDS default_config * 1000"
    by (simp add: ex_defs env_gone_def last_mark_def)
  have h3: "waiting (env_gone 1 (env_gone 0 w_one)) \<noteq> []"
    by (simp add: env_gone_def w_one_def)
  have h4: "waiting (env_gone 2 (env_gone 1 (env_gone 0 w_one))) = []"
    by (simp add: env_gone_def ex_defs eval_defs)
  have r: "find_handler default_config env_gone ws_B None [] x_2 w_one
      = (env_gone 3 (env_gone 2 (env_gone 1 (env_gone 0 w_one))), [], Some TypeError)"
    using h1 h2 h3 h4 by (rule find_handler_empty_snapshot)
  have a: "waiting w_one = [ex_anime]" by (simp add: w_one_def)
  have b: "llen (waiting (env_gone 1 (env_gone 0 w_one))) = 1"
    by (simp add: env_gone_def w_one_def llen_def)
  have c: "fst (snd (find_handler default_config alone ws_C None [] x_4 w_one))
       = [MsgMatched ''pair_r4'' (createLiveKitToken ''C'' ''pair_r4'') ''w2'']"
    by (simp add: ex_defs eval_defs)
  have d: "snapshot (waiting (env_gone 2 (env_gone 1 (env_gone 0 w_one)))) 1 = []"
    unfolding h4 by (rule snapshot_Nil)
  have e: "choose_partner default_config (getCountryFromReq ws_B) (make_entry ws_B None [] (now x_2)) (rnd x_2) [] = None"
    by (rule choose_partner_empty)
  have f: "waiting (fst (find_handler default_config env_gone ws_B None [] x_2 w_one)) = []"
    unfolding r using h4 by (simp add: env_gone_def)
  show ?thesis using a b c h4 d e f by (simp add: r)
qed

lemma choose_partner_mem: "choose_partner cfg country entry r parsed = Some c \<Longrightarrow> c \<in> set parsed"
proof (cases "parsed = []")
  case True
  assume "choose_partner cfg country entry r parsed = Some c"
  with True show ?thesis by (simp add: choose_partner_empty)
next
  case False
  assume a: "choose_partner cfg country entry r parsed = Some c"
  from choose_partner_total[OF False, of cfg country entry r] a
  show ?thesis using nth_mem by auto
qed

section \<open>C2: a removal that removes nothing\<close>

text \<open>
  C2, amended. The handler does not read the answer of \<open>lrem\<close>. Once a partner was
  taken from the snapshot, whatever other handlers did at the points in between, the
  requester is sent \<open>matched\<close> with that partner and the assignment is stored under the
  partner's key for 60 seconds. The queue is what the other handlers left, less one
  occurrence of the partner's entry if there was one: when the removal removed nothing
  the queue is left as it was, with no second attempt and without the requester in it.
  In a run with nothing in between, the removal always removes the entry.
\<close>

theorem find_handler_credits_without_removal:
  assumes "verifyCaptcha cfg (captcha_verdict x)"
    and "\<not> now x - last_mark (env 0 w0) ws < NEXT_COOLDOWN_SECONDS cfg * 1000"
    and "waiting (env 1 (env 0 w0)) \<noteq> []"
    and "choose_partner cfg (getCountryFromReq ws) (make_entry ws tags lang (now x)) (rnd x)
           (snapshot (waiting (env 2 (env 1 (env 0 w0)))) (llen (waiting (env 1 (env 0 w0))))) = Some c"
    and "w3 = env 3 (env 2 (env 1 (env 0 w0)))"
    and "rm = ''pair_'' @ room_uid x"
    and "res = find_handler cfg env ws tags lang x w0"
  shows "fst (snd res) = safeSend ws (MsgMatched rm (createLiveKitToken (ws_id ws) rm) (entry_id c))
       \<and> snd (snd res) = None
       \<and> mailbox (fst res) (entry_id c) =
            Some (\<lparr>asg_room = rm, asg_token = createLiveKitToken (entry_id c) rm, asg_partner = ws_id ws\<rparr>,
                  now x + 60 * 1000)
       \<and> waiting (fst res) =
            waiting (env 4 (w3\<lparr>waiting := remove1 c (waiting w3), currentRoom := (currentRoom w3)(ws_id ws \<mapsto> rm)\<rparr>))
       \<and> (fst (lrem (waiting w3) c) = 0 \<longrightarrow>
            waiting (fst res) = waiting (env 4 (w3\<lparr>currentRoom := (currentRoom w3)(ws_id ws \<mapsto> rm)\<rparr>)))
       \<and> (env = alone \<longrightarrow> fst (lrem (waiting w3) c) = 1)"
proof -
  let ?w4 = "env 4 (w3\<lparr>waiting := remove1 c (waiting w3), currentRoom := (currentRoom w3)(ws_id ws \<mapsto> rm)\<rparr>)"
  have res: "res =
     (?w4\<lparr>mailbox := (mailbox ?w4)(entry_id c \<mapsto>
           (\<lparr>asg_room = rm, asg_token = createLiveKitToken (entry_id c) rm, asg_partner = ws_id ws\<rparr>,
            now x + 60 * 1000))\<rparr>,
      safeSend ws (MsgMatched rm (createLiveKitToken (ws_id ws) rm) (entry_id c)), None)"
    unfolding assms(7) using assms(1-6) by (intro find_handler_matched) simp_all
  have idem: "fst (lrem (waiting w3) c) = 0 \<longrightarrow> remove1 c (waiting w3) = waiting w3"
    by (auto simp: lrem_def remove1_idem split: if_splits)
  have seq: "env = alone \<longrightarrow> fst (lrem (waiting w3) c) = 1"
  proof
    assume e: "env = alone"
    with assms(4,5) have "c \<in> set (snapshot (waiting w0) (llen (waiting w0)))" "w3 = w0"
      using choose_partner_mem by (auto simp: alone_def)
    then have "c \<in> set (waiting w3)" by (auto simp: snapshot_take dest: in_set_takeD)
    then show "fst (lrem (waiting w3) c) = 1" by (simp add: lrem_def)
  qed
  show ?thesis
  proof (intro conjI)
    show "fst (lrem (waiting w3) c) = 0 \<longrightarrow>
            waiting (fst res) = waiting (env 4 (w3\<lparr>currentRoom := (currentRoom w3)(ws_id ws \<mapsto> rm)\<rparr>))"
    proof
      assume "fst (lrem (waiting w3) c) = 0"
      with idem have "remove1 c (waiting w3) = waiting w3" by simp
      then have "w3\<lparr>waiting := remove1 c (waiting w3), currentRoom := (currentRoom w3)(ws_id ws \<mapsto> rm)\<rparr>
                = w3\<lparr>currentRoom := (currentRoom w3)(ws_id ws \<mapsto> rm)\<rparr>" by simp
      then show "waiting (fst res) = waiting (env 4 (w3\<lparr>currentRoom := (currentRoom w3)(ws_id ws \<mapsto> rm)\<rparr>))"
        using res by simp
    qed
  qed (use res seq in simp_all)
qed

text \<open>
  The amended C2 where another requester takes the only waiting entry between the
  snapshot and the removal of \<open>B\<close>: the removal of \<open>B\<close> removes nothing, and
  \<open>B\<close> is still told \<open>matched\<close> and the assignment is stored.
\<close>

theorem find_handler_credits_without_removal_witness:
  "verifyCaptcha default_config (captcha_verdict x_2)
   \<and> waiting (env_race 1 (env_race 0 w_one)) \<noteq> []
   \<and> fst (lrem (waiting (env_race 3 (env_race 2 (env_race 1 (env_race 0 w_one))))) ex_anime) = 0
   \<and> fst (snd (find_handler default_config env_race ws_B None [] x_2 w_one))
       = safeSend ws_B (MsgMatched ''pair_r2'' (createLiveKitToken ''B'' ''pair_r2'') ''w2'')
   \<and> mailbox (fst (find_handler default_config env_race ws_B None [] x_2 w_one)) ''w2''
       = Some (\<lparr>asg_room = ''pair_r2'', asg_token = createLiveKitToken ''w2'' ''pair_r2'', asg_partner = ''B''\<rparr>,
               1061000)
   \<and> waiting (fst (find_handler default_config env_race ws_B None [] x_2 w_one)) = []
   \<and> fst (lrem (waiting (alone 3 (alone 2 (alone 1 (alone 0 w_one))))) ex_anime) = 1"
proof -
  have h1: "verifyCaptcha default_config (captcha_verdict x_2)"
    by (simp add: ex_defs verifyCaptcha_def)
  have h2: "\<not> now x_2 - last_mark (env_race 0 w_one) ws_B < NEXT_COOLDOWN_SECONDS default_config * 1000"
    by (simp add: ex_defs env_race_def last_mark_def)
  have h3: "waiting (env_race 1 (env_race 0 w_one)) \<noteq> []"
    by (simp add: env_race_def w_one_def)
  have h4: "choose_partner default_config (getCountryFromReq ws_B) (make_entry ws_B None [] (now x_2)) (rnd x_2)
           (snapshot (waiting (env_race 2 (env_race 1 (env_race 0 w_one)))) (llen (waiting (env_race 1 (env_race 0 w_one)))))
           = Some ex_anime"
    by (simp add: env_race_def ex_defs eval_defs)
  have r: "fst (lrem (waiting (env_race 3 (env_race 2 (env_race 1 (env_race 0 w_one))))) ex_anime) = 0"
    by (simp add: env_race_def ex_defs eval_defs)
  note T = find_handler_credits_without_removal[OF h1 h2 h3 h4 refl refl refl]
  from T have s: "fst (snd (find_handler default_config env_race ws_B None [] x_2 w_one))
          = safeSend ws_B (MsgMatched (''pair_'' @ room_uid x_2) (createLiveKitToken (ws_id ws_B) (''pair_'' @ room_uid x_2)) (entry_id ex_anime))"
    and m: "mailbox (fst (find_handler default_config env_race ws_B None [] x_2 w_one)) (entry_id ex_anime) =
            Some (\<lparr>asg_room = ''pair_'' @ room_uid x_2, asg_token = createLiveKitToken (entry_id ex_anime) (''pair_'' @ room_uid x_2),
                    asg_partner = ws_id ws_B\<rparr>, now x_2 + 60 * 1000)"
    by blast+
  from T r have q: "waiting (fst (find_handler default_config env_race ws_B None [] x_2 w_one)) =
      waiting (env_race 4 ((env_race 3 (env_race 2 (env_race 1 (env_race 0 w_one))))
         \<lparr>currentRoom := (currentRoom (env_race 3 (env_race 2 (env_race 1 (env_race 0 w_one)))))(ws_id ws_B \<mapsto> ''pair_'' @ room_uid x_2)\<rparr>))"
    by blast
  have q': "waiting (fst (find_handler default_config env_race ws_B None [] x_2 w_one)) = []"
    unfolding q by (simp add: env_race_def ex_defs eval_defs)
  have g1: "verifyCaptcha default_config (captcha_verdict x_2)" by (rule h1)
  have g2: "\<not> now x_2 - last_mark (alone 0 w_one) ws_B < NEXT_COOLDOWN_SECONDS default_config * 1000"
    by (simp add: ex_defs alone_def last_mark_def)
  have g3: "waiting (alone 1 (alone 0 w_one)) \<noteq> []"
    by (simp add: alone_def w_one_def)
  have g4: "choose_partner default_config (getCountryFromReq ws_B) (make_entry ws_B None [] (now x_2)) (rnd x_2)
           (snapshot (waiting (alone 2 (alone 1 (alone 0 w_one)))) (llen (waiting (alone 1 (alone 0 w_one)))))
           = Some ex_anime"
    by (simp add: ex_defs eval_defs)
  from find_handler_credits_without_removal[OF g1 g2 g3 g4 refl refl refl]
  have sq: "fst (lrem (waiting (alone 3 (alone 2 (alone 1 (alone 0 w_one))))) ex_anime) = 1"
    by blast
  have s': "fst (snd (find_handler default_config env_race ws_B None [] x_2 w_one))
       = safeSend ws_B (MsgMatched ''pair_r2'' (createLiveKitToken ''B'' ''pair_r2'') ''w2'')"
    using s by (simp add: ex_defs)
  have m': "mailbox (fst (find_handler default_config env_race ws_B None [] x_2 w_one)) ''w2''
       = Some (\<lparr>asg_room = ''pair_r2'', asg_token = createLiveKitToken ''w2'' ''pair_r2'', asg_partner = ''B''\<rparr>,
               1061000)"
    using m by (simp add: ex_defs)
  show ?thesis using h1 h3 r s' m' q' sq by blast
qed

text \<open>
  C2 as stated fails. One entry waits. \<open>C\<close> finds it, removes it and is matched
  with it while \<open>B\<close> holds a snapshot with that entry. The \<open>lrem\<close> of \<open>B\<close> then
  answers 0; \<open>B\<close> is not retried and not enqueued, it is told \<open>matched\<close> with the
  same partner, and the assignment of \<open>B\<close> is stored for that partner.
\<close>

theorem find_handler_stale_partner_counterexample:
  "waiting w_one = [ex_anime]
   \<and> fst (snd (find_handler default_config alone ws_C None [] x_4 w_one))
       = [MsgMatched ''pair_r4'' (createLiveKitToken ''C'' ''pair_r4'') ''w2'']
   \<and> waiting (env_race 3 w_one) = []
   \<and> fst (lrem (waiting (env_race 3 w_one)) ex_anime) = 0
   \<and> find_handler default_config env_race ws_B None [] x_2 w_one
       = (init_world\<lparr> currentRoom := [''C'' \<mapsto> ''pair_r4'', ''B'' \<mapsto> ''pair_r2''],
                      mailbox := [''w2'' \<mapsto>
                        (\<lparr>asg_room = ''pair_r2'', asg_token = createLiveKitToken ''w2'' ''pair_r2'',
                          asg_partner = ''B''\<rparr>, 1061000)] \<rparr>,
          [MsgMatched ''pair_r2'' (createLiveKitToken ''B'' ''pair_r2'') ''w2''], None)"
  by (simp add: env_race_def ex_defs eval_defs)

section \<open>C3: entries of one identity in the queue\<close>

lemma find_handler_alone_waiting:
  "waiting (fst (find_handler cfg alone ws tags lang x w)) = waiting w
   \<or> (waiting w = [] \<and> waiting (fst (find_handler cfg alone ws tags lang x w)) = [make_entry ws tags lang (now x)])
   \<or> (\<exists>c\<in>set (waiting w). waiting (fst (find_handler cfg alone ws tags lang x w)) = remove1 c (waiting w))"
proof (cases "verifyCaptcha cfg (captcha_verdict x)")
  case False
  then show ?thesis by (simp add: find_handler_rejected_captcha alone_def)
next
  case cap: True
  show ?thesis
  proof (cases "now x - last_mark w ws < NEXT_COOLDOWN_SECONDS cfg * 1000")
    case True
    with cap show ?thesis using find_handler_rejected_cooldown[of cfg x alone w ws tags lang]
      by (simp add: alone_def)
  next
    case cd: False
    show ?thesis
    proof (cases "waiting w = []")
      case True
      with cap cd show ?thesis by (simp add: find_handler_alone_queued)
    next
      case False
      from choose_partner_snapshot[OF False, of cfg "getCountryFromReq ws" "make_entry ws tags lang (now x)" "rnd x"]
      obtain c where c: "c \<in> set (take 51 (waiting w))"
        "choose_partner cfg (getCountryFromReq ws) (make_entry ws tags lang (now x)) (rnd x)
                (snapshot (waiting w) (llen (waiting w))) = Some c" by blast
      from c(1) have "c \<in> set (waiting w)" by (rule in_set_takeD)
      moreover have "waiting (fst (find_handler cfg alone ws tags lang x w)) = remove1 c (waiting w)"
        using find_handler_alone_matched[OF cap cd False c(2) refl] by simp
      ultimately show ?thesis by blast
    qed
  qed
qed

lemma on_message_alone_waiting:
  "waiting (fst (on_message cfg alone ws msg x w)) = waiting w
   \<or> (waiting w = [] \<and> (\<exists>e. waiting (fst (on_message cfg alone ws msg x w)) = [e]))
   \<or> (\<exists>c\<in>set (waiting w). waiting (fst (on_message cfg alone ws msg x w)) = remove1 c (waiting w))"
proof (cases msg)
  case (Find tags lang)
  then show ?thesis using find_handler_alone_waiting[of cfg ws tags lang x w]
    by (auto simp: on_message_def)
next
  case Poll
  then show ?thesis
    by (simp add: on_message_def poll_handler_def split: prod.splits option.splits)
next
  case (Report reason peerId keys)
  then show ?thesis by (simp add: on_message_def report_handler_def Let_def)
qed (simp_all add: on_message_def next_handler_def leave_handler_def)

lemma on_message_alone_invariant:
  assumes "length (waiting w) \<le> 1"
  shows "length (waiting (fst (on_message cfg alone ws msg x w))) \<le> 1"
  using on_message_alone_waiting[of cfg ws msg x w] assms
  by (auto simp: length_remove1)

lemma run_invariant:
  "length (waiting w) \<le> 1 \<Longrightarrow> length (waiting (run cfg es w)) \<le> 1"
proof (induction es arbitrary: w)
  case Nil
  then show ?case by simp
next
  case (Cons e es)
  obtain ws msg x where e: "e = (ws, msg, x)" by (cases e) auto
  show ?case unfolding e using Cons.IH[OF on_message_alone_invariant[OF Cons.prems]] by simp
qed

text \<open>
  C3, amended. When the messages are handled one after the other from the start of the
  server, the queue never holds more than one entry, so never two of one identity. A
  \<open>find\<close> that meets a non-empty queue never appends: it leaves the queue as it is
  (when it is rejected) or removes one entry from it. A \<open>find\<close> that passes the checks
  and meets a queue of one entry, the requester's own earlier entry included, removes
  that entry and leaves the queue empty: the entry is not replaced.
\<close>

theorem waiting_single_when_sequential:
  "length (waiting (run cfg es init_world)) \<le> 1
   \<and> distinct (map entry_id (waiting (run cfg es init_world)))
   \<and> (waiting w \<noteq> [] \<longrightarrow>
        (waiting (fst (find_handler cfg alone ws tags lang x w)) = waiting w
         \<or> (\<exists>c\<in>set (waiting w). waiting (fst (find_handler cfg alone ws tags lang x w)) = remove1 c (waiting w))))
   \<and> (waiting w = [e] \<and> verifyCaptcha cfg (captcha_verdict x)
        \<and> \<not> now x - last_mark w ws < NEXT_COOLDOWN_SECONDS cfg * 1000 \<longrightarrow>
        waiting (fst (find_handler cfg alone ws tags lang x w)) = [])"
proof (intro conjI impI)
  have "length (waiting init_world) \<le> 1" by (simp add: init_world_def)
  then show len: "length (waiting (run cfg es init_world)) \<le> 1" by (rule run_invariant)
  then show "distinct (map entry_id (waiting (run cfg es init_world)))"
    by (cases "waiting (run cfg es init_world)") auto
next
  assume "waiting w \<noteq> []"
  then show "waiting (fst (find_handler cfg alone ws tags lang x w)) = waiting w
         \<or> (\<exists>c\<in>set (waiting w). waiting (fst (find_handler cfg alone ws tags lang x w)) = remove1 c (waiting w))"
    using find_handler_alone_waiting[of cfg ws tags lang x w] by auto
next
  assume a: "waiting w = [e] \<and> verifyCaptcha cfg (captcha_verdict x)
        \<and> \<not> now x - last_mark w ws < NEXT_COOLDOWN_SECONDS cfg * 1000"
  then have ne: "waiting w \<noteq> []" by simp
  have ch: "choose_partner cfg (getCountryFromReq ws) (make_entry ws tags lang (now x)) (rnd x)
                (snapshot (waiting w) (llen (waiting w))) = Some e"
    using a by (simp add: snapshot_take choose_partner_singleton)
  show "waiting (fst (find_handler cfg alone ws tags lang x w)) = []"
    using find_handler_alone_matched[OF _ _ ne ch refl] a by simp
qed

text \<open>
  C3 as stated fails. Handled one after the other, the second \<open>find\<close> of \<open>A\<close>
  meets the entry of its first: the queue is then empty, the entry was removed and no
  new one stands in its place. Handled with the two runs interleaved, both having read
  \<open>llen\<close> as 0 before either \<open>rpush\<close>, the queue holds two entries of \<open>A\<close>.
\<close>

theorem second_find_not_replaced_counterexample:
  "waiting (run default_config [(ws_A, Find (Some [''anime'']) ''en'', x_1)] init_world)
     = [make_entry ws_A (Some [''anime'']) ''en'' 1000000]
   \<and> waiting (run default_config
        [(ws_A, Find (Some [''anime'']) ''en'', x_1), (ws_A, Find (Some [''coding'']) ''en'', x_2)] init_world) = []
   \<and> waiting (fst (find_handler default_config alone ws_A (Some [''anime'']) ''en'' x_1 init_world))
     = rpush (waiting init_world) (make_entry ws_A (Some [''anime'']) ''en'' 1000000)
   \<and> waiting (fst (find_handler default_config env_first ws_A (Some [''coding'']) ''en'' x_3 init_world))
     = [make_entry ws_A (Some [''anime'']) ''en'' 1000000, make_entry ws_A (Some [''coding'']) ''en'' 1000002]
   \<and> map entry_id (waiting (fst (find_handler default_config env_first ws_A (Some [''coding'']) ''en'' x_3 init_world)))
     = [''A'', ''A'']"
  by (simp add: env_first_def ex_defs eval_defs)

text \<open>
  The amended C3 after one \<open>find\<close> of \<open>A\<close>: one entry waits, and the second
  \<open>find\<close> of \<open>A\<close> leaves the queue empty.
\<close>

theorem waiting_single_when_sequential_witness:
  "length (waiting (run default_config [(ws_A, Find (Some [''anime'']) ''en'', x_1)] init_world)) \<le> 1
   \<and> waiting (run default_config [(ws_A, Find (Some [''anime'']) ''en'', x_1)] init_world)
       = [make_entry ws_A (Some [''anime'']) ''en'' 1000000]
   \<and> verifyCaptcha default_config (captcha_verdict x_2)
   \<and> waiting (fst (find_handler default_config alone ws_A (Some [''coding'']) ''en'' x_2
        (run default_config [(ws_A, Find (Some [''anime'']) ''en'', x_1)] init_world))) = []"
proof -
  let ?w = "run default_config [(ws_A, Find (Some [''anime'']) ''en'', x_1)] init_world"
  let ?e = "make_entry ws_A (Some [''anime'']) ''en'' 1000000"
  note T = waiting_single_when_sequential[where cfg = default_config
      and es = "[(ws_A, Find (Some [''anime'']) ''en'', x_1)]" and w = ?w and e = ?e and x = x_2
      and ws = ws_A and tags = "Some [''coding'']" and lang = "''en''"]
  have q: "waiting ?w = [?e]" by (simp add: ex_defs eval_defs)
  have cap: "verifyCaptcha default_config (captcha_verdict x_2)" by (simp add: ex_defs verifyCaptcha_def)
  have cd: "\<not> now x_2 - last_mark ?w ws_A < NEXT_COOLDOWN_SECONDS default_config * 1000"
    by (simp add: ex_defs eval_defs)
  from T have "length (waiting ?w) \<le> 1" by blast
  moreover from T q cap cd
  have "waiting (fst (find_handler default_config alone ws_A (Some [''coding'']) ''en'' x_2 ?w)) = []"
    by blast
  ultimately show ?thesis using q cap by simp
qed

section \<open>C4: the mailbox\<close>

lemma find_handler_alone_mailbox:
  "mailbox (fst (find_handler cfg alone ws tags lang x w)) k = mailbox w k
   \<or> (\<exists>a. mailbox (fst (find_handler cfg alone ws tags lang x w)) k = Some (a, now x + 60 * 1000))"
proof (cases "verifyCaptcha cfg (captcha_verdict x)")
  case False
  then show ?thesis by (simp add: find_handler_rejected_captcha alone_def)
next
  case cap: True
  show ?thesis
  proof (cases "now x - last_mark w ws < NEXT_COOLDOWN_SECONDS cfg * 1000")
    case True
    with cap show ?thesis using find_handler_rejected_cooldown[of cfg x alone w ws tags lang]
      by (simp add: alone_def)
  next
    case cd: False
    show ?thesis
    proof (cases "waiting w = []")
      case True
      with cap cd show ?thesis by (simp add: find_handler_alone_queued)
    next
      case False
      from choose_partner_snapshot[OF False, of cfg "getCountryFromReq ws" "make_entry ws tags lang (now x)" "rnd x"]
      obtain c where c: "choose_partner cfg (getCountryFromReq ws) (make_entry ws tags lang (now x)) (rnd x)
                (snapshot (waiting w) (llen (waiting w))) = Some c" by blast
      show ?thesis
        using find_handler_alone_matched[OF cap cd False c refl] by simp
    qed
  qed
qed

lemma find_handler_sent_matched:
  assumes "ws_open ws"
    and "fst (snd (find_handler cfg env ws tags lang x w0)) = [MsgMatched rm tk pid]"
  shows "mailbox (fst (find_handler cfg env ws tags lang x w0)) pid =
           Some (\<lparr>asg_room = rm, asg_token = createLiveKitToken pid rm, asg_partner = ws_id ws\<rparr>,
                 now x + 60 * 1000)"
  using assms
  by (auto simp: find_handler_def Let_def safeSend_def setex_def split: if_splits option.splits)

lemma poll_many_empty:
  "mailbox w (ws_id ws) = None \<Longrightarrow> poll_many ws xs w = (w, [])"
  by (induction xs) (simp_all add: poll_handler_def getdel_def)

text \<open>
  C4. A \<open>find\<close> changes a mailbox key only by storing an assignment that expires 60
  seconds later, and whenever it tells the requester \<open>matched\<close> the partner's key
  holds the assignment of that room until then. A poll that finds an unexpired
  assignment sends it and deletes the key, and every poll after it, at any times, sends
  nothing while nothing new is stored. A poll after the expiry finds nothing, and so
  does a poll of an empty key.
\<close>

theorem mailbox_ttl_and_single_delivery:
  "(mailbox (fst (find_handler cfg alone ws tags lang x w)) k = mailbox w k
     \<or> (\<exists>a. mailbox (fst (find_handler cfg alone ws tags lang x w)) k = Some (a, now x + 60 * 1000)))
   \<and> (ws_open ws \<and> fst (snd (find_handler cfg env ws tags lang x w)) = [MsgMatched rm tk pid] \<longrightarrow>
        mailbox (fst (find_handler cfg env ws tags lang x w)) pid =
          Some (\<lparr>asg_room = rm, asg_token = createLiveKitToken pid rm, asg_partner = ws_id ws\<rparr>,
                now x + 60 * 1000))
   \<and> (mailbox w (ws_id ws) = Some (a, expiry) \<and> now x \<le> expiry \<longrightarrow>
        poll_handler ws x w =
          (w\<lparr>mailbox := (mailbox w)(ws_id ws := None),
             currentRoom := (currentRoom w)(ws_id ws \<mapsto> asg_room a)\<rparr>,
           safeSend ws (MsgMatched (asg_room a) (asg_token a) (asg_partner a)), None)
        \<and> (\<forall>xs. snd (poll_many ws xs (fst (poll_handler ws x w))) = [])
        \<and> (\<forall>xs. mailbox (fst (poll_many ws xs (fst (poll_handler ws x w)))) (ws_id ws) = None))
   \<and> (mailbox w (ws_id ws) = Some (a, expiry) \<and> now x > expiry \<longrightarrow>
        fst (snd (poll_handler ws x w)) = []
        \<and> mailbox (fst (poll_handler ws x w)) (ws_id ws) = None)
   \<and> (mailbox w (ws_id ws) = None \<longrightarrow> poll_handler ws x w = (w, [], None))"
proof (intro conjI impI)
  show "mailbox (fst (find_handler cfg alone ws tags lang x w)) k = mailbox w k
     \<or> (\<exists>a. mailbox (fst (find_handler cfg alone ws tags lang x w)) k = Some (a, now x + 60 * 1000))"
    by (rule find_handler_alone_mailbox)
next
  assume "ws_open ws \<and> fst (snd (find_handler cfg env ws tags lang x w)) = [MsgMatched rm tk pid]"
  then show "mailbox (fst (find_handler cfg env ws tags lang x w)) pid =
          Some (\<lparr>asg_room = rm, asg_token = createLiveKitToken pid rm, asg_partner = ws_id ws\<rparr>,
                now x + 60 * 1000)"
    using find_handler_sent_matched by blast
next
  assume a: "mailbox w (ws_id ws) = Some (a, expiry) \<and> now x \<le> expiry"
  then show p: "poll_handler ws x w =
          (w\<lparr>mailbox := (mailbox w)(ws_id ws := None),
             currentRoom := (currentRoom w)(ws_id ws \<mapsto> asg_room a)\<rparr>,
           safeSend ws (MsgMatched (asg_room a) (asg_token a) (asg_partner a)), None)"
    by (simp add: poll_handler_def getdel_def)
  have e: "mailbox (fst (poll_handler ws x w)) (ws_id ws) = None" by (simp add: p)
  show "\<forall>xs. snd (poll_many ws xs (fst (poll_handler ws x w))) = []"
    using poll_many_empty[OF e] by simp
  show "\<forall>xs. mailbox (fst (poll_many ws xs (fst (poll_handler ws x w)))) (ws_id ws) = None"
    using poll_many_empty[OF e] e by simp
next
  assume a: "mailbox w (ws_id ws) = Some (a, expiry) \<and> now x > expiry"
  then show "fst (snd (poll_handler ws x w)) = []"
    by (simp add: poll_handler_def getdel_def)
  from a show "mailbox (fst (poll_handler ws x w)) (ws_id ws) = None"
    by (simp add: poll_handler_def getdel_def)
next
  assume "mailbox w (ws_id ws) = None"
  then show "poll_handler ws x w = (w, [], None)"
    by (simp add: poll_handler_def getdel_def)
qed

text \<open>
  C4 at a match of \<open>A\<close> with the waiting \<open>w2\<close> at time 1000000: the key of
  \<open>w2\<close> expires at 1060000. A mailbox that holds an assignment for \<open>A\<close> until
  1060000: a poll before that delivers it and the polls after it deliver nothing; a
  poll at 1060001 finds nothing; a poll of \<open>B\<close> finds nothing.
\<close>

theorem mailbox_ttl_and_single_delivery_witness:
  "ws_open ws_A
   \<and> fst (snd (find_handler default_config alone ws_A None [] x_1 w_one))
       = [MsgMatched ''pair_r1'' (createLiveKitToken ''A'' ''pair_r1'') ''w2'']
   \<and> mailbox (fst (find_handler default_config alone ws_A None [] x_1 w_one)) ''w2''
       = Some (\<lparr>asg_room = ''pair_r1'', asg_token = createLiveKitToken ''w2'' ''pair_r1'', asg_partner = ''A''\<rparr>,
               1060000)
   \<and> now x_2 \<le> 1060000
   \<and> fst (snd (poll_handler ws_A x_2 w_mail)) = [MsgMatched ''pair_r1'' (createLiveKitToken ''A'' ''pair_r1'') ''B'']
   \<and> snd (poll_many ws_A [x_2, x_1, x_bad] (fst (poll_handler ws_A x_2 w_mail))) = []
   \<and> 1060000 < now (x_2\<lparr>now := 1060001\<rparr>)
   \<and> fst (snd (poll_handler ws_A (x_2\<lparr>now := 1060001\<rparr>) w_mail)) = []
   \<and> mailbox (fst (poll_handler ws_A (x_2\<lparr>now := 1060001\<rparr>) w_mail)) ''A'' = None
   \<and> poll_handler ws_B x_2 w_mail = (w_mail, [], None)"
proof -
  let ?a = "\<lparr>asg_room = ''pair_r1'', asg_token = createLiveKitToken ''A'' ''pair_r1'', asg_partner = ''B''\<rparr>"
  note T1 = mailbox_ttl_and_single_delivery[where cfg = default_config and env = alone and ws = ws_A
      and tags = None and lang = "[]" and x = x_1 and w = w_one and k = "''w2''" and rm = "''pair_r1''"
      and tk = "createLiveKitToken ''A'' ''pair_r1''" and pid = "''w2''" and a = ?a and expiry = 1060000]
  note T2 = mailbox_ttl_and_single_delivery[where cfg = default_config and env = alone and ws = ws_A
      and tags = None and lang = "[]" and x = x_2 and w = w_mail and k = "''w2''" and rm = "''pair_r1''"
      and tk = "createLiveKitToken ''A'' ''pair_r1''" and pid = "''w2''" and a = ?a and expiry = 1060000]
  note T3 = mailbox_ttl_and_single_delivery[where cfg = default_config and env = alone and ws = ws_A
      and tags = None and lang = "[]" and x = "x_2\<lparr>now := 1060001\<rparr>" and w = w_mail and k = "''w2''" and rm = "''pair_r1''"
      and tk = "createLiveKitToken ''A'' ''pair_r1''" and pid = "''w2''" and a = ?a and expiry = 1060000]
  note T4 = mailbox_ttl_and_single_delivery[where cfg = default_config and env = alone and ws = ws_B
      and tags = None and lang = "[]" and x = x_2 and w = w_mail and k = "''w2''" and rm = "''pair_r1''"
      and tk = "createLiveKitToken ''A'' ''pair_r1''" and pid = "''w2''" and a = ?a and expiry = 1060000]
  have op: "ws_open ws_A" by (simp add: ws_A_def)
  have s: "fst (snd (find_handler default_config alone ws_A None [] x_1 w_one))
       = [MsgMatched ''pair_r1'' (createLiveKitToken ''A'' ''pair_r1'') ''w2'']"
    by (simp add: ex_defs eval_defs)
  from T1 op s have d: "mailbox (fst (find_handler default_config alone ws_A None [] x_1 w_one)) ''w2''
       = Some (\<lparr>asg_room = ''pair_r1'', asg_token = createLiveKitToken ''w2'' ''pair_r1'', asg_partner = ws_id ws_A\<rparr>,
               now x_1 + 60 * 1000)" by blast
  have m: "mailbox w_mail (ws_id ws_A) = Some (?a, 1060000)" by (simp add: w_mail_def init_world_def ws_A_def)
  have t2: "now x_2 \<le> 1060000" by (simp add: x_2_def)
  from T2 m t2 have p: "poll_handler ws_A x_2 w_mail =
          (w_mail\<lparr>mailbox := (mailbox w_mail)(ws_id ws_A := None),
             currentRoom := (currentRoom w_mail)(ws_id ws_A \<mapsto> asg_room ?a)\<rparr>,
           safeSend ws_A (MsgMatched (asg_room ?a) (asg_token ?a) (asg_partner ?a)), None)"
     and pm: "\<forall>xs. snd (poll_many ws_A xs (fst (poll_handler ws_A x_2 w_mail))) = []"
    by blast+
  have t3: "1060000 < now (x_2\<lparr>now := 1060001\<rparr>)" by simp
  from T3 m t3 have ex: "fst (snd (poll_handler ws_A (x_2\<lparr>now := 1060001\<rparr>) w_mail)) = []"
      "mailbox (fst (poll_handler ws_A (x_2\<lparr>now := 1060001\<rparr>) w_mail)) (ws_id ws_A) = None"
    by blast+
  have mb: "mailbox w_mail (ws_id ws_B) = None" by (simp add: w_mail_def init_world_def ws_B_def)
  from T4 mb have nb: "poll_handler ws_B x_2 w_mail = (w_mail, [], None)" by blast
  have d': "mailbox (fst (find_handler default_config alone ws_A None [] x_1 w_one)) ''w2''
       = Some (\<lparr>asg_room = ''pair_r1'', asg_token = createLiveKitToken ''w2'' ''pair_r1'', asg_partner = ''A''\<rparr>,
               1060000)"
    using d by (simp add: ws_A_def x_1_def)
  have p': "fst (snd (poll_handler ws_A x_2 w_mail)) = [MsgMatched ''pair_r1'' (createLiveKitToken ''A'' ''pair_r1'') ''B'']"
    using p by (simp add: ws_A_def safeSend_def)
  have pm': "snd (poll_many ws_A [x_2, x_1, x_bad] (fst (poll_handler ws_A x_2 w_mail))) = []"
    using pm by blast
  have ex': "mailbox (fst (poll_handler ws_A (x_2\<lparr>now := 1060001\<rparr>) w_mail)) ''A'' = None"
    using ex(2) by (simp add: ws_A_def)
  show ?thesis
    using op s d' t2 p' pm' t3 ex(1) ex' nb by blast
qed

section \<open>C5: the cooldown\<close>

text \<open>
  C5 as stated fails. With a verifier configured, a \<open>find\<close> of \<open>A\<close> 2000
  milliseconds after its mark, whose proof the verifier refuses, is answered
  \<open>captcha_failed\<close> and no remaining seconds.
\<close>

theorem find_bad_captcha_in_cooldown_counterexample:
  "nextCooldown w_marked (ws_id ws_A) = Some 1000000
   \<and> now x_bad - 1000000 < NEXT_COOLDOWN_SECONDS cfg_secret * 1000
   \<and> find_handler cfg_secret alone ws_A None [] x_bad w_marked
       = (w_marked, [MsgError ''captcha_failed''], None)"
  by (simp add: ex_defs eval_defs)

lemma find_handler_no_cooldown_msg:
  "\<not> now x - last_mark (env 0 w) ws < NEXT_COOLDOWN_SECONDS cfg * 1000 \<Longrightarrow>
   MsgCooldown s \<notin> set (fst (snd (find_handler cfg env ws tags lang x w)))"
  by (auto simp: find_handler_def Let_def safeSend_def split: if_splits option.splits)

text \<open>
  C5, amended. A \<open>find\<close> that passes the verifier while
  \<open>now - mark < NEXT_COOLDOWN_SECONDS * 1000\<close> is answered \<open>cooldown\<close> with the
  remaining time rounded up to whole seconds (at least 1, and at most the window when
  the mark is not in the future), and the
  state is unchanged: nothing is enqueued and the mark stays. A \<open>find\<close> that fails
  the verifier is answered \<open>captcha_failed\<close> instead, cooldown or not, and the state
  is unchanged as well. A \<open>find\<close> after the window is never answered \<open>cooldown\<close>.
\<close>

theorem find_in_cooldown_rejected:
  "(verifyCaptcha cfg (captcha_verdict x) \<and> nextCooldown w (ws_id ws) = Some mark
      \<and> now x - mark < NEXT_COOLDOWN_SECONDS cfg * 1000 \<longrightarrow>
      find_handler cfg alone ws tags lang x w =
        (w, safeSend ws (MsgCooldown \<lceil>real_of_int (NEXT_COOLDOWN_SECONDS cfg * 1000 - (now x - mark)) / 1000\<rceil>), None)
      \<and> 1 \<le> \<lceil>real_of_int (NEXT_COOLDOWN_SECONDS cfg * 1000 - (now x - mark)) / 1000\<rceil>
      \<and> (mark \<le> now x \<longrightarrow>
           \<lceil>real_of_int (NEXT_COOLDOWN_SECONDS cfg * 1000 - (now x - mark)) / 1000\<rceil> \<le> NEXT_COOLDOWN_SECONDS cfg))
   \<and> (\<not> verifyCaptcha cfg (captcha_verdict x) \<longrightarrow>
        find_handler cfg alone ws tags lang x w = (w, safeSend ws (MsgError ''captcha_failed''), None))
   \<and> (nextCooldown w (ws_id ws) = Some mark \<and> NEXT_COOLDOWN_SECONDS cfg * 1000 \<le> now x - mark \<longrightarrow>
        (\<forall>s. MsgCooldown s \<notin> set (fst (snd (find_handler cfg alone ws tags lang x w)))))"
proof (intro conjI impI allI)
  assume a: "verifyCaptcha cfg (captcha_verdict x) \<and> nextCooldown w (ws_id ws) = Some mark
      \<and> now x - mark < NEXT_COOLDOWN_SECONDS cfg * 1000"
  then have lm: "last_mark w ws = mark" by (simp add: last_mark_def)
  show "find_handler cfg alone ws tags lang x w =
        (w, safeSend ws (MsgCooldown \<lceil>real_of_int (NEXT_COOLDOWN_SECONDS cfg * 1000 - (now x - mark)) / 1000\<rceil>), None)"
    using find_handler_rejected_cooldown[of cfg x alone w ws tags lang] a lm by (simp add: alone_def)
  from a have pos: "0 < NEXT_COOLDOWN_SECONDS cfg * 1000 - (now x - mark)" by simp
  then have "0 < real_of_int (NEXT_COOLDOWN_SECONDS cfg * 1000 - (now x - mark)) / 1000" by simp
  then have "0 < \<lceil>real_of_int (NEXT_COOLDOWN_SECONDS cfg * 1000 - (now x - mark)) / 1000\<rceil>"
    by (simp only: zero_less_ceiling)
  then show "1 \<le> \<lceil>real_of_int (NEXT_COOLDOWN_SECONDS cfg * 1000 - (now x - mark)) / 1000\<rceil>" by simp
  assume "mark \<le> now x"
  then have "real_of_int (NEXT_COOLDOWN_SECONDS cfg * 1000 - (now x - mark)) / 1000 \<le> real_of_int (NEXT_COOLDOWN_SECONDS cfg)"
    by simp
  then show "\<lceil>real_of_int (NEXT_COOLDOWN_SECONDS cfg * 1000 - (now x - mark)) / 1000\<rceil> \<le> NEXT_COOLDOWN_SECONDS cfg"
    by (simp only: ceiling_le_iff)
next
  assume "\<not> verifyCaptcha cfg (captcha_verdict x)"
  then show "find_handler cfg alone ws tags lang x w = (w, safeSend ws (MsgError ''captcha_failed''), None)"
    by (simp add: find_handler_rejected_captcha alone_def)
next
  fix s
  assume "nextCooldown w (ws_id ws) = Some mark \<and> NEXT_COOLDOWN_SECONDS cfg * 1000 \<le> now x - mark"
  then have "\<not> now x - last_mark (alone 0 w) ws < NEXT_COOLDOWN_SECONDS cfg * 1000"
    by (simp add: last_mark_def alone_def)
  then show "MsgCooldown s \<notin> set (fst (snd (find_handler cfg alone ws tags lang x w)))"
    by (rule find_handler_no_cooldown_msg)
qed

text \<open>
  The amended C5 with the mark of \<open>A\<close> at 1000000 and a window of 5 seconds: at
  1001000 the answer is 4 seconds, at 1004001 it is 1 second, at 1005000 the request
  is queued; a refused proof is answered \<open>captcha_failed\<close>.
\<close>

theorem find_in_cooldown_rejected_witness:
  "verifyCaptcha default_config (captcha_verdict x_2)
   \<and> nextCooldown w_marked (ws_id ws_A) = Some 1000000
   \<and> now x_2 - 1000000 < NEXT_COOLDOWN_SECONDS default_config * 1000
   \<and> find_handler default_config alone ws_A None [] x_2 w_marked = (w_marked, [MsgCooldown 4], None)
   \<and> 1000000 \<le> now x_2
   \<and> \<lceil>real_of_int (NEXT_COOLDOWN_SECONDS default_config * 1000 - (now x_2 - 1000000)) / 1000\<rceil>
       \<le> NEXT_COOLDOWN_SECONDS default_config
   \<and> find_handler default_config alone ws_A None [] (x_2\<lparr>now := 1004001\<rparr>) w_marked
       = (w_marked, [MsgCooldown 1], None)
   \<and> NEXT_COOLDOWN_SECONDS default_config * 1000 \<le> now (x_2\<lparr>now := 1005000\<rparr>) - 1000000
   \<and> fst (snd (find_handler default_config alone ws_A None [] (x_2\<lparr>now := 1005000\<rparr>) w_marked)) = [MsgQueued]
   \<and> MsgCooldown 0 \<notin> set (fst (snd (find_handler default_config alone ws_A None [] (x_2\<lparr>now := 1005000\<rparr>) w_marked)))
   \<and> \<not> verifyCaptcha cfg_secret (captcha_verdict x_bad)
   \<and> find_handler cfg_secret alone ws_A None [] x_bad w_marked
       = (w_marked, safeSend ws_A (MsgError ''captcha_failed''), None)"
proof -
  note T1 = find_in_cooldown_rejected[where cfg = default_config and x = x_2 and w = w_marked
      and ws = ws_A and mark = 1000000 and tags = None and lang = "[]"]
  note T2 = find_in_cooldown_rejected[where cfg = default_config and x = "x_2\<lparr>now := 1004001\<rparr>" and w = w_marked
      and ws = ws_A and mark = 1000000 and tags = None and lang = "[]"]
  note T3 = find_in_cooldown_rejected[where cfg = default_config and x = "x_2\<lparr>now := 1005000\<rparr>" and w = w_marked
      and ws = ws_A and mark = 1000000 and tags = None and lang = "[]"]
  note T4 = find_in_cooldown_rejected[where cfg = cfg_secret and x = x_bad and w = w_marked
      and ws = ws_A and mark = 1000000 and tags = None and lang = "[]"]
  have cap: "verifyCaptcha default_config (captcha_verdict x_2)"
      "verifyCaptcha default_config (captcha_verdict (x_2\<lparr>now := 1004001\<rparr>))"
    by (simp_all add: ex_defs verifyCaptcha_def)
  have mk: "nextCooldown w_marked (ws_id ws_A) = Some 1000000" by (simp add: ex_defs)
  have c1: "now x_2 - 1000000 < NEXT_COOLDOWN_SECONDS default_config * 1000"
       "now (x_2\<lparr>now := 1004001\<rparr>) - 1000000 < NEXT_COOLDOWN_SECONDS default_config * 1000"
    by (simp_all add: ex_defs)
  have v1: "\<lceil>real_of_int (NEXT_COOLDOWN_SECONDS default_config * 1000 - (now x_2 - 1000000)) / 1000\<rceil> = 4"
    by (simp add: ex_defs)
  have v2: "\<lceil>real_of_int (NEXT_COOLDOWN_SECONDS default_config * 1000 - (now (x_2\<lparr>now := 1004001\<rparr>) - 1000000)) / 1000\<rceil> = 1"
    by (simp add: ex_defs)
  from T1 cap(1) mk c1(1) have a: "find_handler default_config alone ws_A None [] x_2 w_marked =
        (w_marked, safeSend ws_A (MsgCooldown \<lceil>real_of_int (NEXT_COOLDOWN_SECONDS default_config * 1000 - (now x_2 - 1000000)) / 1000\<rceil>), None)"
    by blast
  have fut: "1000000 \<le> now x_2" by (simp add: x_2_def)
  from T1 cap(1) mk c1(1) fut
  have ub: "\<lceil>real_of_int (NEXT_COOLDOWN_SECONDS default_config * 1000 - (now x_2 - 1000000)) / 1000\<rceil>
       \<le> NEXT_COOLDOWN_SECONDS default_config" by blast
  have a': "find_handler default_config alone ws_A None [] x_2 w_marked = (w_marked, [MsgCooldown 4], None)"
    unfolding a v1 by (simp add: safeSend_def ws_A_def)
  from T2 cap(2) mk c1(2) have b: "find_handler default_config alone ws_A None [] (x_2\<lparr>now := 1004001\<rparr>) w_marked =
        (w_marked, safeSend ws_A (MsgCooldown \<lceil>real_of_int (NEXT_COOLDOWN_SECONDS default_config * 1000 - (now (x_2\<lparr>now := 1004001\<rparr>) - 1000000)) / 1000\<rceil>), None)"
    by blast
  have b': "find_handler default_config alone ws_A None [] (x_2\<lparr>now := 1004001\<rparr>) w_marked = (w_marked, [MsgCooldown 1], None)"
    unfolding b v2 by (simp add: safeSend_def ws_A_def)
  have c3: "NEXT_COOLDOWN_SECONDS default_config * 1000 \<le> now (x_2\<lparr>now := 1005000\<rparr>) - 1000000"
    by (simp add: ex_defs)
  from T3 mk c3 have d: "MsgCooldown 0 \<notin> set (fst (snd (find_handler default_config alone ws_A None [] (x_2\<lparr>now := 1005000\<rparr>) w_marked)))"
    by blast
  have d': "fst (snd (find_handler default_config alone ws_A None [] (x_2\<lparr>now := 1005000\<rparr>) w_marked)) = [MsgQueued]"
    by (simp add: ex_defs eval_defs)
  have nc: "\<not> verifyCaptcha cfg_secret (captcha_verdict x_bad)" by (simp add: ex_defs verifyCaptcha_def)
  from T4 nc have e: "find_handler cfg_secret alone ws_A None [] x_bad w_marked
       = (w_marked, safeSend ws_A (MsgError ''captcha_failed''), None)" by blast
  show ?thesis using cap(1) mk c1(1) a' fut ub b' c3 d' d nc e by blast
qed

section \<open>C7: the size of the snapshot\<close>

lemma scan_q51: "select_idx default_config q51 None [''anime''] ''en'' r = 50"
proof -
  have len: "length q51 = 51" by (simp add: q51_def)
  have last: "q51 ! 50 = ex_anime" by (simp add: q51_def nth_append)
  have before: "\<forall>k. 0 \<le> k \<and> k < 50 \<longrightarrow> \<not> overlap [''anime''] (q51 ! k) \<and> \<not> langOK ''en'' (q51 ! k)"
    by (simp add: q51_def nth_append waiter_def overlap_def langOK_def)
  have "scan q51 [''anime''] ''en'' 0 (countryBiasMatch default_config q51 None r) = int 50"
    by (rule scan_first) (use len last before in \<open>simp_all add: overlap_def ex_anime_def\<close>)
  then show ?thesis by (simp add: select_idx_def)
qed

text \<open>
  C7 fails on the code. \<open>lrange(waitingKey, 0, Math.min(50, len-1))\<close> is inclusive at
  both ends: of a queue of 51 entries the snapshot holds all 51, and the entry at
  index 50, the 51st, is the one selected when it is the first that passes the scan.
\<close>

theorem snapshot_reads_51_entries:
  "length q51 = 51
   \<and> length (snapshot q51 (llen q51)) = 51
   \<and> snapshot q51 (llen q51) ! 50 = ex_anime
   \<and> choose_partner default_config None (make_entry ws_A (Some [''anime'']) ''en'' 1000000) 0
        (snapshot q51 (llen q51)) = Some ex_anime
   \<and> fst (snd (find_handler default_config alone ws_A (Some [''anime'']) ''en'' x_1 (init_world\<lparr>waiting := q51\<rparr>)))
        = [MsgMatched ''pair_r1'' (createLiveKitToken ''A'' ''pair_r1'') ''w2'']"
proof -
  have len: "length q51 = 51" by (simp add: q51_def)
  have snap: "snapshot q51 (llen q51) = q51" using len by (simp add: snapshot_take)
  have last: "q51 ! 50 = ex_anime" by (simp add: q51_def nth_append)
  have tg: "entry_tags (make_entry ws_A (Some [''anime'']) ''en'' 1000000) = [''anime'']"
           "entry_lang (make_entry ws_A (Some [''anime'']) ''en'' 1000000) = ''en''"
    by (simp_all add: make_entry_def)
  have ch: "choose_partner default_config None (make_entry ws_A (Some [''anime'']) ''en'' 1000000) 0 q51 = Some ex_anime"
    using len last by (simp add: choose_partner_def tg scan_q51 chosen_of_def at_index_def)
  have pre: "verifyCaptcha default_config (captcha_verdict x_1)"
    "\<not> now x_1 - last_mark (init_world\<lparr>waiting := q51\<rparr>) ws_A < NEXT_COOLDOWN_SECONDS default_config * 1000"
    "waiting (init_world\<lparr>waiting := q51\<rparr>) \<noteq> []"
    using len by (auto simp: ex_defs verifyCaptcha_def last_mark_def)
  have ch': "choose_partner default_config (getCountryFromReq ws_A) (make_entry ws_A (Some [''anime'']) ''en'' (now x_1)) (rnd x_1)
           (snapshot (waiting (init_world\<lparr>waiting := q51\<rparr>)) (llen (waiting (init_world\<lparr>waiting := q51\<rparr>)))) = Some ex_anime"
    using ch snap by (simp add: getCountryFromReq_def ws_A_def x_1_def)
  have "fst (snd (find_handler default_config alone ws_A (Some [''anime'']) ''en'' x_1 (init_world\<lparr>waiting := q51\<rparr>)))
        = [MsgMatched ''pair_r1'' (createLiveKitToken ''A'' ''pair_r1'') ''w2'']"
    using find_handler_alone_matched[OF pre ch' refl] by (simp add: safeSend_def ws_A_def x_1_def ex_anime_def)
  with len snap last ch show ?thesis by simp
qed

section \<open>C8: next\<close>

text \<open>
  C8. On \<open>next\<close>, in any state and whatever else runs, the mark of the connection is
  set to the current time and no other mark changes; \<open>left\<close> is sent (followed by
  \<open>queued\<close>); the queue, the mailbox, the reports and the room are untouched: nothing
  is enqueued and no partner is looked for.
\<close>

theorem next_marks_cooldown_and_leaves:
  "nextCooldown (fst (on_message cfg env ws Next x w)) (ws_id ws) = Some (now x)
   \<and> (\<forall>k. k \<noteq> ws_id ws \<longrightarrow> nextCooldown (fst (on_message cfg env ws Next x w)) k = nextCooldown w k)
   \<and> waiting (fst (on_message cfg env ws Next x w)) = waiting w
   \<and> mailbox (fst (on_message cfg env ws Next x w)) = mailbox w
   \<and> reports (fst (on_message cfg env ws Next x w)) = reports w
   \<and> currentRoom (fst (on_message cfg env ws Next x w)) = currentRoom w
   \<and> fst (snd (on_message cfg env ws Next x w)) = safeSend ws MsgLeft @ safeSend ws MsgQueued
   \<and> (ws_open ws \<longrightarrow> fst (snd (on_message cfg env ws Next x w)) = [MsgLeft, MsgQueued])
   \<and> snd (snd (on_message cfg env ws Next x w)) = None"
  by (simp add: on_message_def next_handler_def safeSend_def)

text \<open>
  C8 at a \<open>next\<close> of \<open>A\<close> while another entry waits.
\<close>

theorem next_marks_cooldown_and_leaves_witness:
  "ws_open ws_A
   \<and> nextCooldown (fst (on_message default_config alone ws_A Next x_1 w_one)) ''A'' = Some 1000000
   \<and> ''B'' \<noteq> ws_id ws_A
   \<and> nextCooldown (fst (on_message default_config alone ws_A Next x_1 w_one)) ''B'' = None
   \<and> waiting (fst (on_message default_config alone ws_A Next x_1 w_one)) = [ex_anime]
   \<and> fst (snd (on_message default_config alone ws_A Next x_1 w_one)) = [MsgLeft, MsgQueued]"
proof -
  note T = next_marks_cooldown_and_leaves[where cfg = default_config and env = alone and ws = ws_A
      and x = x_1 and w = w_one]
  have op: "ws_open ws_A" and ne: "''B'' \<noteq> ws_id ws_A" by (simp_all add: ws_A_def)
  from T have a: "nextCooldown (fst (on_message default_config alone ws_A Next x_1 w_one)) (ws_id ws_A) = Some (now x_1)"
    by blast
  from T ne have b: "nextCooldown (fst (on_message default_config alone ws_A Next x_1 w_one)) ''B'' = nextCooldown w_one ''B''"
    by blast
  from T have c: "waiting (fst (on_message default_config alone ws_A Next x_1 w_one)) = waiting w_one"
    by blast
  from T op have d: "fst (snd (on_message default_config alone ws_A Next x_1 w_one)) = [MsgLeft, MsgQueued]"
    by blast
  have a': "nextCooldown (fst (on_message default_config alone ws_A Next x_1 w_one)) ''A'' = Some 1000000"
    using a by (simp add: ws_A_def x_1_def)
  have b': "nextCooldown (fst (on_message default_config alone ws_A Next x_1 w_one)) ''B'' = None"
    using b by (simp add: w_one_def init_world_def)
  have c': "waiting (fst (on_message default_config alone ws_A Next x_1 w_one)) = [ex_anime]"
    using c by (simp add: w_one_def)
  show ?thesis using op a' ne b' c' d by blast
qed

section \<open>C9: a match with the own entry\<close>

text \<open>
  C9. The selection does not look at the requester's identity. When the entry it takes
  is the requester's own, as it is when the own entry is the only one waiting, the
  requester is told \<open>matched\<close> with itself as partner, both tokens are made for its
  identity, and the assignment is stored under its own key.
\<close>

theorem find_can_match_own_entry:
  "choose_partner cfg country (entry\<lparr>entry_id := i\<rparr>) r parsed = choose_partner cfg country entry r parsed
   \<and> (verifyCaptcha cfg (captcha_verdict x)
        \<and> \<not> now x - last_mark w ws < NEXT_COOLDOWN_SECONDS cfg * 1000
        \<and> waiting w \<noteq> []
        \<and> choose_partner cfg (getCountryFromReq ws) (make_entry ws tags lang (now x)) (rnd x)
             (snapshot (waiting w) (llen (waiting w))) = Some c
        \<and> entry_id c = ws_id ws \<longrightarrow>
        find_handler cfg alone ws tags lang x w =
          (w\<lparr>waiting := remove1 c (waiting w),
             currentRoom := (currentRoom w)(ws_id ws \<mapsto> ''pair_'' @ room_uid x),
             mailbox := (mailbox w)(ws_id ws \<mapsto>
               (\<lparr>asg_room = ''pair_'' @ room_uid x,
                 asg_token = createLiveKitToken (ws_id ws) (''pair_'' @ room_uid x),
                 asg_partner = ws_id ws\<rparr>, now x + 60 * 1000))\<rparr>,
           safeSend ws (MsgMatched (''pair_'' @ room_uid x)
              (createLiveKitToken (ws_id ws) (''pair_'' @ room_uid x)) (ws_id ws)), None))
   \<and> (waiting w = [e] \<longrightarrow>
        choose_partner cfg (getCountryFromReq ws) (make_entry ws tags lang (now x)) (rnd x)
             (snapshot (waiting w) (llen (waiting w))) = Some e)"
proof (intro conjI impI)
  show "choose_partner cfg country (entry\<lparr>entry_id := i\<rparr>) r parsed = choose_partner cfg country entry r parsed"
    by (simp add: choose_partner_def)
next
  assume a: "verifyCaptcha cfg (captcha_verdict x)
        \<and> \<not> now x - last_mark w ws < NEXT_COOLDOWN_SECONDS cfg * 1000
        \<and> waiting w \<noteq> []
        \<and> choose_partner cfg (getCountryFromReq ws) (make_entry ws tags lang (now x)) (rnd x)
             (snapshot (waiting w) (llen (waiting w))) = Some c
        \<and> entry_id c = ws_id ws"
  then show "find_handler cfg alone ws tags lang x w =
          (w\<lparr>waiting := remove1 c (waiting w),
             currentRoom := (currentRoom w)(ws_id ws \<mapsto> ''pair_'' @ room_uid x),
             mailbox := (mailbox w)(ws_id ws \<mapsto>
               (\<lparr>asg_room = ''pair_'' @ room_uid x,
                 asg_token = createLiveKitToken (ws_id ws) (''pair_'' @ room_uid x),
                 asg_partner = ws_id ws\<rparr>, now x + 60 * 1000))\<rparr>,
           safeSend ws (MsgMatched (''pair_'' @ room_uid x)
              (createLiveKitToken (ws_id ws) (''pair_'' @ room_uid x)) (ws_id ws)), None)"
    using find_handler_alone_matched[of cfg x w ws tags lang c "''pair_'' @ room_uid x"] by simp
next
  assume "waiting w = [e]"
  then show "choose_partner cfg (getCountryFromReq ws) (make_entry ws tags lang (now x)) (rnd x)
             (snapshot (waiting w) (llen (waiting w))) = Some e"
    by (simp add: snapshot_take choose_partner_singleton)
qed

text \<open>
  C9 at two \<open>find\<close> requests of \<open>A\<close> from the start of the server: the first
  is queued, the second is matched with the entry of the first.
\<close>

theorem find_can_match_own_entry_witness:
  "waiting (fst (find_handler default_config alone ws_A (Some [''anime'']) ''en'' x_1 init_world))
     = [make_entry ws_A (Some [''anime'']) ''en'' 1000000]
   \<and> entry_id (make_entry ws_A (Some [''anime'']) ''en'' 1000000) = ws_id ws_A
   \<and> verifyCaptcha default_config (captcha_verdict x_2)
   \<and> fst (snd (find_handler default_config alone ws_A (Some [''coding'']) ''en'' x_2
        (fst (find_handler default_config alone ws_A (Some [''anime'']) ''en'' x_1 init_world))))
       = [MsgMatched ''pair_r2'' (createLiveKitToken ''A'' ''pair_r2'') ''A'']
   \<and> mailbox (fst (find_handler default_config alone ws_A (Some [''coding'']) ''en'' x_2
        (fst (find_handler default_config alone ws_A (Some [''anime'']) ''en'' x_1 init_world)))) ''A''
       = Some (\<lparr>asg_room = ''pair_r2'', asg_token = createLiveKitToken ''A'' ''pair_r2'', asg_partner = ''A''\<rparr>,
               1061000)"
proof -
  let ?w = "fst (find_handler default_config alone ws_A (Some [''anime'']) ''en'' x_1 init_world)"
  let ?e = "make_entry ws_A (Some [''anime'']) ''en'' 1000000"
  note T = find_can_match_own_entry[where cfg = default_config and x = x_2 and w = ?w and ws = ws_A
      and tags = "Some [''coding'']" and lang = "''en''" and c = ?e and e = ?e]
  have q: "waiting ?w = [?e]" by (simp add: ex_defs eval_defs)
  have own: "entry_id ?e = ws_id ws_A" by (simp add: make_entry_def)
  have cap: "verifyCaptcha default_config (captcha_verdict x_2)" by (simp add: ex_defs verifyCaptcha_def)
  have cd: "\<not> now x_2 - last_mark ?w ws_A < NEXT_COOLDOWN_SECONDS default_config * 1000"
    by (simp add: ex_defs eval_defs)
  have ne: "waiting ?w \<noteq> []" using q by simp
  from T q have ch: "choose_partner default_config (getCountryFromReq ws_A) (make_entry ws_A (Some [''coding'']) ''en'' (now x_2)) (rnd x_2)
             (snapshot (waiting ?w) (llen (waiting ?w))) = Some ?e" by blast
  from T cap cd ne ch own
  have r: "find_handler default_config alone ws_A (Some [''coding'']) ''en'' x_2 ?w =
          (?w\<lparr>waiting := remove1 ?e (waiting ?w),
             currentRoom := (currentRoom ?w)(ws_id ws_A \<mapsto> ''pair_'' @ room_uid x_2),
             mailbox := (mailbox ?w)(ws_id ws_A \<mapsto>
               (\<lparr>asg_room = ''pair_'' @ room_uid x_2,
                 asg_token = createLiveKitToken (ws_id ws_A) (''pair_'' @ room_uid x_2),
                 asg_partner = ws_id ws_A\<rparr>, now x_2 + 60 * 1000))\<rparr>,
           safeSend ws_A (MsgMatched (''pair_'' @ room_uid x_2)
              (createLiveKitToken (ws_id ws_A) (''pair_'' @ room_uid x_2)) (ws_id ws_A)), None)"
    by blast
  have s: "fst (snd (find_handler default_config alone ws_A (Some [''coding'']) ''en'' x_2 ?w))
       = [MsgMatched ''pair_r2'' (createLiveKitToken ''A'' ''pair_r2'') ''A'']"
    unfolding r by (simp add: safeSend_def ws_A_def x_2_def)
  have m: "mailbox (fst (find_handler default_config alone ws_A (Some [''coding'']) ''en'' x_2 ?w)) ''A''
       = Some (\<lparr>asg_room = ''pair_r2'', asg_token = createLiveKitToken ''A'' ''pair_r2'', asg_partner = ''A''\<rparr>,
               1061000)"
    unfolding r by (simp add: ws_A_def x_2_def)
  show ?thesis using q own cap s m by blast
qed

section \<open>C10: report\<close>

text \<open>
  C10. A \<open>report\<close> is answered \<open>ok\<close> whatever the validator says; the queue, the
  mailbox, the cooldown marks and the room are unchanged; when the validation fails
  nothing at all changes, so nothing is appended to the reports; what is sent does not
  depend on the validator.
\<close>

theorem report_always_answered_ok:
  "fst (snd (report_handler validate ws reason peerId keys x w)) = safeSend ws MsgOk
   \<and> (ws_open ws \<longrightarrow> fst (snd (report_handler validate ws reason peerId keys x w)) = [MsgOk])
   \<and> snd (snd (report_handler validate ws reason peerId keys x w)) = None
   \<and> waiting (fst (report_handler validate ws reason peerId keys x w)) = waiting w
   \<and> mailbox (fst (report_handler validate ws reason peerId keys x w)) = mailbox w
   \<and> nextCooldown (fst (report_handler validate ws reason peerId keys x w)) = nextCooldown w
   \<and> currentRoom (fst (report_handler validate ws reason peerId keys x w)) = currentRoom w
   \<and> (\<not> validate \<lparr> ro_reason = reason,
                     ro_peerId = (case peerId of None \<Rightarrow> [] | Some p \<Rightarrow> p),
                     ro_room = (case currentRoom w (ws_id ws) of None \<Rightarrow> [] | Some r \<Rightarrow> r),
                     ro_other_keys = ''type'' # keys \<rparr> \<longrightarrow>
        fst (report_handler validate ws reason peerId keys x w) = w)
   \<and> snd (report_handler validate ws reason peerId keys x w)
        = snd (report_handler validate' ws reason peerId keys x w)
   \<and> on_message cfg env ws (Report reason peerId keys) x w
        = report_handler reportSchema ws reason peerId keys x w"
  by (simp add: report_handler_def Let_def safeSend_def on_message_def)

text \<open>
  C10 at a report of \<open>A\<close> with no current room: the schema refuses it, the answer
  is \<open>ok\<close> and nothing changes; with a validator that accepts, the answer is the same
  and one report is appended.
\<close>

theorem report_always_answered_ok_witness:
  "ws_open ws_A
   \<and> \<not> reportSchema \<lparr> ro_reason = Some ''spam'', ro_peerId = ''B'', ro_room = [], ro_other_keys = [''type''] \<rparr>
   \<and> on_message default_config alone ws_A (Report (Some ''spam'') (Some ''B'') []) x_1 w_one
       = (w_one, [MsgOk], None)
   \<and> snd (report_handler (\<lambda>obj. True) ws_A (Some ''spam'') (Some ''B'') [] x_1 w_one) = ([MsgOk], None)
   \<and> length (reports (fst (report_handler (\<lambda>obj. True) ws_A (Some ''spam'') (Some ''B'') [] x_1 w_one))) = 1"
proof -
  note T = report_always_answered_ok[where validate = reportSchema and validate' = "\<lambda>obj. True" and ws = ws_A
      and reason = "Some ''spam''" and peerId = "Some ''B''" and keys = "[]" and x = x_1 and w = w_one
      and cfg = default_config and env = alone]
  have op: "ws_open ws_A" by (simp add: ws_A_def)
  have cr: "currentRoom w_one (ws_id ws_A) = None" by (simp add: w_one_def init_world_def)
  have nv: "\<not> reportSchema \<lparr> ro_reason = Some ''spam'', ro_peerId = ''B'', ro_room = [], ro_other_keys = [''type''] \<rparr>"
    by (simp add: reportSchema_def)
  from T nv cr have w: "fst (report_handler reportSchema ws_A (Some ''spam'') (Some ''B'') [] x_1 w_one) = w_one"
    by simp
  from T op have s: "fst (snd (report_handler reportSchema ws_A (Some ''spam'') (Some ''B'') [] x_1 w_one)) = [MsgOk]"
    by blast
  from T have e: "snd (snd (report_handler reportSchema ws_A (Some ''spam'') (Some ''B'') [] x_1 w_one)) = None"
    by blast
  from T have om: "on_message default_config alone ws_A (Report (Some ''spam'') (Some ''B'') []) x_1 w_one
        = report_handler reportSchema ws_A (Some ''spam'') (Some ''B'') [] x_1 w_one" by blast
  have a: "on_message default_config alone ws_A (Report (Some ''spam'') (Some ''B'') []) x_1 w_one = (w_one, [MsgOk], None)"
    unfolding om using w s e by (metis prod.collapse)
  from T have same: "snd (report_handler reportSchema ws_A (Some ''spam'') (Some ''B'') [] x_1 w_one)
        = snd (report_handler (\<lambda>obj. True) ws_A (Some ''spam'') (Some ''B'') [] x_1 w_one)" by blast
  have b: "snd (report_handler (\<lambda>obj. True) ws_A (Some ''spam'') (Some ''B'') [] x_1 w_one) = ([MsgOk], None)"
    using same s e by (metis prod.collapse)
  have c: "length (reports (fst (report_handler (\<lambda>obj. True) ws_A (Some ''spam'') (Some ''B'') [] x_1 w_one))) = 1"
    by (simp add: report_handler_def xadd_def w_one_def init_world_def)
  show ?thesis using op nv a b c by blast
qed

end
